theory Spec2Isabelle
  imports Main "HOL-Library.Word" "HOL-Library.Monad_Syntax"
begin

section \<open>Data model of \<open>StorageDevice\<close> (src/src/applib/storage_device.cpp)\<close>

text \<open>
  The enumerations are those the source switches over. Scoped enumerators whose short
  name is taken in HOL (\<open>ParseStatus::None\<close>) or shared between two enumerations
  (\<open>Basic\<close>, \<open>Nvme\<close>) carry the name of their enumeration as a prefix.
\<close>

datatype StorageDeviceDetectedType =
  Unknown | NeedsExplicitType | AtaAny | AtaHdd | AtaSsd | Nvme | BasicScsi | CdDvd
  | UnsupportedRaid

datatype ParseStatus = ParseStatus_None | ParseStatus_Basic | ParseStatus_Full

datatype SmartStatus = Enabled | Disabled | Unsupported

datatype SmartctlParserType = Parser_Basic | Parser_Ata | Parser_Nvme

datatype SmartctlOutputFormat = Json | Text

datatype StorageDeviceError =
  TestRunning | CannotExecuteOnVirtual | ExecutionError | ParseError | CommandFailed
  | CommandUnknownError

text \<open>
  \<open>hz::ExpectedVoid<StorageDeviceError>\<close>: either nothing, or an error kind with its
  message. \<open>Inl\<close> is the error.
\<close>

type_synonym ExpectedVoid = "(StorageDeviceError \<times> string) + unit"

text \<open>
  Modelled from the spec: \<open>StorageProperty\<close> and \<open>StoragePropertyRepository\<close> are declared
  in headers that are not among the sources. A property holds a typed value (boolean,
  integer, string) or nothing, and a human-readable string; the repository maps
  hierarchical string keys to properties, and a lookup of an absent key yields the empty
  property. \<open>get_value<T>()\<close> reads the alternative \<open>T\<close> of the value; on a value that
  holds another alternative it does not return (the accessor throws), which is the
  result \<open>None\<close> here.
\<close>

datatype property_value = Monostate | VBool bool | VInt "64 word" | VString string

record StorageProperty =
  pvalue :: property_value
  readable_value :: string

type_synonym StoragePropertyRepository = "string \<rightharpoonup> StorageProperty"

definition empty_property :: StorageProperty where
  "empty_property = \<lparr>pvalue = Monostate, readable_value = []\<rparr>"

definition lookup_property :: "StoragePropertyRepository \<Rightarrow> string \<Rightarrow> StorageProperty" where
  "lookup_property repo k = (case repo k of None \<Rightarrow> empty_property | Some p \<Rightarrow> p)"

definition empty :: "StorageProperty \<Rightarrow> bool" where
  "empty p = (pvalue p = Monostate)"

fun get_value_bool :: "StorageProperty \<Rightarrow> bool option" where
  "get_value_bool p = (case pvalue p of VBool b \<Rightarrow> Some b | _ \<Rightarrow> None)"

fun get_value_int64 :: "StorageProperty \<Rightarrow> 64 word option" where
  "get_value_int64 p = (case pvalue p of VInt n \<Rightarrow> Some n | _ \<Rightarrow> None)"

fun get_value_string :: "StorageProperty \<Rightarrow> string option" where
  "get_value_string p = (case pvalue p of VString s \<Rightarrow> Some s | _ \<Rightarrow> None)"

text \<open>
  The members of \<open>StorageDevice\<close> that the modelled operations read or write, under their
  source names without the trailing underscore (\<open>size_\<close> is \<open>size_str\<close>, as \<open>size\<close> is a
  HOL constant).
\<close>

record StorageDevice =
  is_virtual :: bool
  device :: string
  type_arg :: string
  extra_args :: "string list"
  detected_type :: StorageDeviceDetectedType
  basic_output :: string
  full_output :: string
  parse_status :: ParseStatus
  property_repository :: StoragePropertyRepository
  smart_supported :: "bool option"
  smart_enabled :: "bool option"
  model_name :: "string option"
  family_name :: "string option"
  serial_number :: "string option"
  size_str :: "string option"
  health_property :: "StorageProperty option"
  test_is_active :: bool

text \<open>
  What the operations do outside the device object: every run of the smartctl executor
  is recorded as (device, device options, command options), in order, and every
  \<open>signal_changed().emit(this)\<close> is counted. Debug logging is not modelled.
\<close>

type_synonym smartctl_call = "string \<times> string list \<times> string list"

record world =
  calls :: "smartctl_call list"
  emitted :: nat

text \<open>
  The collaborators whose code is outside the sources, taken as parameters:
  \<open>SmartctlVersionParser::get_default_format\<close> and \<open>get_default_parser_type\<close>,
  \<open>SmartctlParser::detect_output_format\<close> (\<open>Inl\<close> its error message),
  \<open>SmartctlParser::create\<close> (\<open>None\<close> when no parser is created; a parser maps the output to
  the error message of a failed parse, \<open>Inl\<close>, or to the repository it then holds),
  \<open>StoragePropertyProcessor::process_properties\<close>,
  \<open>StorageDeviceDetectedTypeExt::get_by_storable_name\<close>, \<open>BuildEnv::is_kernel_linux\<close>,
  \<open>app_get_device_options\<close>, and \<open>execute_smartctl\<close> with the executor behind it. The
  executor answers a call, given the calls made before it, with its status (\<open>Some\<close> the
  message of a failed execution) and the text it leaves in the output buffer.
\<close>

record collaborators =
  get_default_format :: "SmartctlParserType \<Rightarrow> SmartctlOutputFormat"
  get_default_parser_type :: "StorageDeviceDetectedType \<Rightarrow> SmartctlParserType"
  detect_output_format :: "string \<Rightarrow> string + SmartctlOutputFormat"
  create :: "SmartctlParserType \<Rightarrow> SmartctlOutputFormat
    \<Rightarrow> (string \<Rightarrow> string + StoragePropertyRepository) option"
  process_properties :: "StoragePropertyRepository \<Rightarrow> StorageDeviceDetectedType
    \<Rightarrow> StoragePropertyRepository"
  get_by_storable_name :: "string \<Rightarrow> StorageDeviceDetectedType \<Rightarrow> StorageDeviceDetectedType"
  is_kernel_linux :: bool
  app_get_device_options :: "string \<Rightarrow> string \<Rightarrow> string list"
  execute_smartctl :: "smartctl_call list \<Rightarrow> string \<Rightarrow> string list \<Rightarrow> string list
    \<Rightarrow> string option \<times> string"

section \<open>String helpers\<close>

text \<open>
  Modelled from the spec: \<open>hz::string_to_lower_copy\<close> (hz/string_algo.h) is not among the
  sources. It lower-cases the ASCII letters of a string.
\<close>

definition to_lower :: "char \<Rightarrow> char" where
  "to_lower ch =
     (case map_of (zip ''ABCDEFGHIJKLMNOPQRSTUVWXYZ'' ''abcdefghijklmnopqrstuvwxyz'') ch of
        Some l \<Rightarrow> l
      | None \<Rightarrow> ch)"

definition string_to_lower_copy :: "string \<Rightarrow> string" where
  "string_to_lower_copy s = map to_lower s"

text \<open>\<open>std::string::starts_with\<close>.\<close>

definition starts_with :: "string \<Rightarrow> string \<Rightarrow> bool" where
  "starts_with s p = (take (length p) s = p)"

text \<open>The lines of a text: the pieces between its newline characters.\<close>

fun split_lines :: "string \<Rightarrow> string list" where
  "split_lines [] = [[]]"
| "split_lines (ch # s) =
     (if ch = CHR 0x0A then [] # split_lines s
      else (case split_lines s of l # ls \<Rightarrow> (ch # l) # ls | [] \<Rightarrow> [[ch]]))"

fun tails :: "string \<Rightarrow> string list" where
  "tails [] = [[]]"
| "tails (ch # s) = (ch # s) # tails s"

text \<open>
  Modelled from the spec: \<open>app_regex_partial_match\<close> (app_regex.h) is not among the
  sources. Its first argument is a pattern written \<open>/body/flags\<close>. The source only calls
  it with the flags \<open>mi\<close> (multi-line, case-insensitive) and a body that is literal text
  with or without a leading \<open>^\<close> anchor, and this is the part modelled: with the anchor,
  the text matches when one of its lines starts with the literal, letter case ignored;
  without it, when the literal occurs anywhere in the text, letter case ignored.
\<close>

definition starts_with_nocase :: "string \<Rightarrow> string \<Rightarrow> bool" where
  "starts_with_nocase s p = starts_with (string_to_lower_copy s) (string_to_lower_copy p)"

definition app_regex_partial_match :: "string \<Rightarrow> string \<Rightarrow> bool" where
  "app_regex_partial_match pattern text =
     (case take (length pattern - 4) (drop 1 pattern) of
        [] \<Rightarrow> True
      | ch # body \<Rightarrow>
          (if ch = CHR ''^''
           then list_ex (\<lambda>l. starts_with_nocase l body) (split_lines text)
           else list_ex (\<lambda>t. starts_with_nocase t (ch # body)) (tails text)))"

section \<open>Operations\<close>

definition clear_outputs :: "StorageDevice \<Rightarrow> StorageDevice" where
  "clear_outputs d = d\<lparr>basic_output := [], full_output := []\<rparr>"

definition clear_parse_results :: "StorageDevice \<Rightarrow> StorageDevice" where
  "clear_parse_results d =
     d\<lparr>parse_status := ParseStatus_None,
       property_repository := Map.empty,
       smart_supported := None,
       smart_enabled := None,
       model_name := None,
       family_name := None,
       size_str := None,
       health_property := None\<rparr>"

text \<open>\<open>StorageDevice::get_smart_status\<close>, branch by branch.\<close>

definition get_smart_status :: "StorageDevice \<Rightarrow> SmartStatus" where
  "get_smart_status d =
     (if smart_enabled d \<noteq> None then
        (if the (smart_enabled d) then Enabled
         else (if smart_supported d \<noteq> None then
                 (if the (smart_supported d) then Disabled else Unsupported)
               else Disabled))
      else (if smart_supported d \<noteq> None then
              (if the (smart_supported d) then Disabled else Unsupported)
            else Unsupported))"

text \<open>
  The same accessor in the older source file (src/gsmartcontrol/src/applib/storage_device.cpp),
  over the two optional flags, with that file's \<open>status_t\<close>.
\<close>

datatype status_t = status_unsupported | status_disabled | status_enabled | status_unknown

definition get_smart_status_legacy :: "bool option \<Rightarrow> bool option \<Rightarrow> status_t" where
  "get_smart_status_legacy enabled supported =
     (if enabled \<noteq> None then
        (if the enabled then status_enabled
         else (if supported \<noteq> None then
                 (if the supported then status_disabled else status_unsupported)
               else status_disabled))
      else (if supported \<noteq> None then
              (if the supported then status_disabled else status_unsupported)
            else status_unsupported))"


text \<open>\<open>StorageDevice::get_device_base\<close>: the part of the device name after its last slash.\<close>

definition get_device_base :: "StorageDevice \<Rightarrow> string" where
  "get_device_base d =
     (if is_virtual d then []
      else if CHR ''/'' \<notin> set (device d) then device d
      else rev (takeWhile (\<lambda>ch. ch \<noteq> CHR ''/'') (rev (device d))))"

definition get_device_options :: "collaborators \<Rightarrow> StorageDevice \<Rightarrow> string list" where
  "get_device_options c d =
     (if is_virtual d then []
      else (if type_arg d \<noteq> [] then [''-d'', type_arg d] else [])
           @ extra_args d
           @ app_get_device_options c (device d) (type_arg d))"

text \<open>
  \<open>StorageDevice::execute_device_smartctl\<close>. The output buffer is passed by reference in
  the source: the model takes its content and returns the new content as the second
  component, for the caller to store where the reference pointed. None of the members
  read here is the buffer itself. Only \<open>fetch_basic_data_and_parse\<close> passes \<open>check_type\<close>
  (as \<open>true\<close>, "set type to invalid if needed"); the other two callers leave it to the
  default of the declaration, which is not among the sources and is taken as \<open>false\<close>.
\<close>

definition execute_device_smartctl ::
  "collaborators \<Rightarrow> string list \<Rightarrow> string \<Rightarrow> bool \<Rightarrow> StorageDevice \<Rightarrow> world
    \<Rightarrow> ExpectedVoid \<times> string \<times> StorageDevice \<times> world" where
  "execute_device_smartctl c command_options smartctl_output check_type d w =
     (if is_virtual d
      then (Inl (CannotExecuteOnVirtual, ''Cannot execute smartctl on a virtual device.''),
            smartctl_output, d, w)
      else
        (case execute_smartctl c (calls w) (device d) (get_device_options c d) command_options of
           (smartctl_status, out) \<Rightarrow>
             let w' = w\<lparr>calls := calls w @ [(device d, get_device_options c d, command_options)]\<rparr>
             in (case smartctl_status of
                   Some message \<Rightarrow>
                     (Inl (ExecutionError, message), out,
                      (if check_type \<and> detected_type d = Unknown
                          \<and> app_regex_partial_match
                               ''/specify device type with the -d option/mi'' out
                       then d\<lparr>detected_type := NeedsExplicitType\<rparr> else d),
                      w')
                 | None \<Rightarrow> (Inr (), out, d, w'))))"

text \<open>
  The block that tells an ATA SSD from an ATA HDD by the \<open>rotation_rate\<close> property; the
  source has it twice, in the text branch and in the JSON branch of the resolver.
\<close>

definition hdd_or_ssd :: "StoragePropertyRepository \<Rightarrow> StorageDeviceDetectedType option" where
  "hdd_or_ssd property_repo =
     (let rpm_prop = lookup_property property_repo ''rotation_rate'' in
      if empty rpm_prop then Some AtaSsd
      else do {
        rpm \<leftarrow> get_value_int64 rpm_prop;
        Some (if rpm = 0 then AtaSsd else AtaHdd)
      })"

text \<open>The first block of the resolver: the property set by the text parser.\<close>

definition detect_from_text_property ::
  "collaborators \<Rightarrow> StoragePropertyRepository \<Rightarrow> StorageDevice \<Rightarrow> StorageDevice option" where
  "detect_from_text_property c property_repo d =
     (let drive_type_prop =
            lookup_property property_repo ''_text_only/custom/parser_detected_drive_type'' in
      if \<not> empty drive_type_prop then do {
        drive_type_storable_str \<leftarrow> get_value_string drive_type_prop;
        let d1 = d\<lparr>detected_type := get_by_storable_name c drive_type_storable_str BasicScsi\<rparr>;
        if detected_type d1 = AtaAny then do {
          t \<leftarrow> hdd_or_ssd property_repo;
          Some (d1\<lparr>detected_type := t\<rparr>)
        } else Some d1
      } else Some d)"

text \<open>
  The local \<open>lowercase_protocol\<close> of the resolver: the lower-cased \<open>device/protocol\<close>
  property, or the empty string when the property is absent.
\<close>

definition lowercase_protocol :: "StoragePropertyRepository \<Rightarrow> string option" where
  "lowercase_protocol property_repo =
     (let device_protocol_prop = lookup_property property_repo ''device/protocol'' in
      if \<not> empty device_protocol_prop
      then map_option string_to_lower_copy (get_value_string device_protocol_prop)
      else Some [])"

text \<open>The second block: the properties set by the JSON parser.\<close>

definition detect_from_json_property ::
  "collaborators \<Rightarrow> StoragePropertyRepository \<Rightarrow> StorageDevice \<Rightarrow> StorageDevice option" where
  "detect_from_json_property c property_repo d =
     (let device_type_prop = lookup_property property_repo ''device/type'' in
      if \<not> empty device_type_prop then do {
        smartctl_type \<leftarrow> get_value_string device_type_prop;
        protocol \<leftarrow> lowercase_protocol property_repo;
        if smartctl_type = ''scsi'' then
          (if is_kernel_linux c \<and> starts_with (get_device_base d) ''sr''
           then Some (d\<lparr>detected_type := CdDvd\<rparr>)
           else Some (d\<lparr>detected_type := BasicScsi\<rparr>))
        else if smartctl_type = ''sat'' \<or> protocol = ''ata'' then do {
          t \<leftarrow> hdd_or_ssd property_repo;
          Some (d\<lparr>detected_type := t\<rparr>)
        }
        else if smartctl_type = ''nvme'' \<or> protocol = ''nvme''
        then Some (d\<lparr>detected_type := Nvme\<rparr>)
        else Some d
      } else Some d)"

text \<open>
  \<open>StorageDevice::detect_drive_type_from_properties\<close>: the two blocks in sequence (the
  second is not an alternative of the first), then the fallback for a type that is
  still \<open>Unknown\<close>.
\<close>

definition detect_drive_type_from_properties ::
  "collaborators \<Rightarrow> StoragePropertyRepository \<Rightarrow> StorageDevice \<Rightarrow> StorageDevice option" where
  "detect_drive_type_from_properties c property_repo d = do {
     d1 \<leftarrow> detect_from_text_property c property_repo d;
     d2 \<leftarrow> detect_from_json_property c property_repo d1;
     Some (if detected_type d2 = Unknown then d2\<lparr>detected_type := BasicScsi\<rparr> else d2)
   }"

text \<open>
  \<open>StorageDevice::read_common_properties\<close>, one definition for each \<open>if\<close> statement of the
  source. In the last one the \<open>else if\<close> declares \<open>prop2\<close> and then tests \<open>prop\<close>, as
  written in the source.
\<close>

definition read_smart_supported :: "StorageDevice \<Rightarrow> StorageDevice option" where
  "read_smart_supported d =
     (let prop = lookup_property (property_repository d) ''smart_support/available'' in
      if \<not> empty prop then do {
        b \<leftarrow> get_value_bool prop;
        Some (d\<lparr>smart_supported := Some b\<rparr>)
      } else Some d)"

definition read_smart_enabled :: "StorageDevice \<Rightarrow> StorageDevice option" where
  "read_smart_enabled d =
     (let prop = lookup_property (property_repository d) ''smart_support/enabled'' in
      if \<not> empty prop then do {
        b \<leftarrow> get_value_bool prop;
        Some (d\<lparr>smart_enabled := Some b\<rparr>)
      } else Some d)"

definition read_model_name :: "StorageDevice \<Rightarrow> StorageDevice option" where
  "read_model_name d =
     (let prop = lookup_property (property_repository d) ''model_name'' in
      if \<not> empty prop then do {
        s \<leftarrow> get_value_string prop;
        Some (d\<lparr>model_name := Some s\<rparr>)
      } else
        (let prop = lookup_property (property_repository d) ''scsi_model_name'' in
         if \<not> empty prop then do {
           s \<leftarrow> get_value_string prop;
           Some (d\<lparr>model_name := Some s\<rparr>)
         } else Some d))"

definition read_family_name :: "StorageDevice \<Rightarrow> StorageDevice option" where
  "read_family_name d =
     (let prop = lookup_property (property_repository d) ''model_family'' in
      if \<not> empty prop then do {
        s \<leftarrow> get_value_string prop;
        Some (d\<lparr>family_name := Some s\<rparr>)
      } else
        (let prop = lookup_property (property_repository d) ''scsi_vendor'' in
         if \<not> empty prop then do {
           s \<leftarrow> get_value_string prop;
           Some (d\<lparr>family_name := Some s\<rparr>)
         } else Some d))"

definition read_serial_number :: "StorageDevice \<Rightarrow> StorageDevice option" where
  "read_serial_number d =
     (let prop = lookup_property (property_repository d) ''serial_number'' in
      if \<not> empty prop then do {
        s \<leftarrow> get_value_string prop;
        Some (d\<lparr>serial_number := Some s\<rparr>)
      } else Some d)"

definition read_size :: "StorageDevice \<Rightarrow> StorageDevice" where
  "read_size d =
     (let prop = lookup_property (property_repository d) ''user_capacity/bytes/_short'' in
      if \<not> empty prop then d\<lparr>size_str := Some (readable_value prop)\<rparr>
      else
        (let prop2 = lookup_property (property_repository d) ''user_capacity/bytes'' in
         if \<not> empty prop then d\<lparr>size_str := Some (readable_value prop2)\<rparr>
         else d))"

definition read_common_properties :: "StorageDevice \<Rightarrow> StorageDevice option" where
  "read_common_properties d = do {
     d1 \<leftarrow> read_smart_supported d;
     d2 \<leftarrow> read_smart_enabled d1;
     d3 \<leftarrow> read_model_name d2;
     d4 \<leftarrow> read_family_name d3;
     d5 \<leftarrow> read_serial_number d4;
     Some (read_size d5)
   }"


text \<open>
  \<open>StorageDevice::parse_basic_data\<close>. The result is \<open>None\<close> when a property accessor does
  not return; otherwise the returned status, the device and the world after the call.
  The translation function \<open>_\<close> is taken as the identity on the message templates.
\<close>

definition parse_basic_data ::
  "collaborators \<Rightarrow> StorageDevice \<Rightarrow> world \<Rightarrow> (ExpectedVoid \<times> StorageDevice \<times> world) option" where
  "parse_basic_data c d w =
     (let d1 = clear_parse_results d;
          output_format = (case detect_output_format c (basic_output d1) of
                             Inr f \<Rightarrow> f | Inl _ \<Rightarrow> Text)
      in case create c Parser_Basic output_format of
           None \<Rightarrow> Some (Inl (ParseError, ''Cannot create parser''), d1, w)
         | Some basic_parser \<Rightarrow>
             (case basic_parser (basic_output d1) of
                Inl message \<Rightarrow>
                  Some (Inl (ParseError, ''Cannot parse smartctl output: '' @ message), d1, w)
              | Inr basic_property_repo \<Rightarrow> do {
                  d2 \<leftarrow> detect_drive_type_from_properties c basic_property_repo d1;
                  let d3 = d2\<lparr>property_repository :=
                              process_properties c basic_property_repo (detected_type d2)\<rparr>;
                  d4 \<leftarrow> read_common_properties d3;
                  let d5 = d4\<lparr>parse_status :=
                              (if model_name d4 \<noteq> None then ParseStatus_Basic
                               else ParseStatus_None)\<rparr>;
                  Some (Inr (), d5, w\<lparr>emitted := Suc (emitted w)\<rparr>)
                }))"

text \<open>
  \<open>StorageDevice::fetch_basic_data_and_parse\<close>. The executor writes into the member
  \<open>basic_output_\<close>, so the returned buffer content is stored there. The function calls
  itself in the retry branch.
\<close>

function fetch_basic_data_and_parse ::
  "collaborators \<Rightarrow> StorageDevice \<Rightarrow> world \<Rightarrow> (ExpectedVoid \<times> StorageDevice \<times> world) option" where
  "fetch_basic_data_and_parse c d w =
     (if test_is_active d
      then Some (Inl (TestRunning, ''A test is currently being performed on this drive.''), d, w)
      else
        let d1 = clear_outputs (clear_parse_results d);
            default_parser_type = get_default_format c Parser_Basic;
            command_options = [''--info'', ''--health'', ''--capabilities'']
              @ (if default_parser_type = Json then [''--json=o''] else [])
        in case execute_device_smartctl c command_options (basic_output d1) True d1 w of
             (execute_status, out, d2, w2) \<Rightarrow>
               let d3 = d2\<lparr>basic_output := out\<rparr> in
               if (case execute_status of Inr _ \<Rightarrow> True | Inl e \<Rightarrow> fst e = ExecutionError)
                  \<and> detected_type d3 = NeedsExplicitType
                  \<and> type_arg d3 = []
               then fetch_basic_data_and_parse c
                      (d3\<lparr>type_arg := ''scsi'', detected_type := BasicScsi\<rparr>) w2
               else parse_basic_data c d3 w2)"
  by pat_completeness auto

termination fetch_basic_data_and_parse
  apply (relation "measure (\<lambda>(c, d, w). if type_arg d = [] then 1 else 0)")
   apply simp
  apply (auto simp: execute_device_smartctl_def clear_outputs_def clear_parse_results_def
      Let_def split: if_splits prod.splits option.splits)
  done

declare fetch_basic_data_and_parse.simps [simp del]

text \<open>\<open>StorageDevice::parse_full_data\<close>.\<close>

definition parse_full_data ::
  "collaborators \<Rightarrow> SmartctlParserType \<Rightarrow> SmartctlOutputFormat \<Rightarrow> StorageDevice \<Rightarrow> world
    \<Rightarrow> (ExpectedVoid \<times> StorageDevice \<times> world) option" where
  "parse_full_data c parser_type format d w =
     (let d1 = clear_parse_results d
      in case create c parser_type format of
           None \<Rightarrow> Some (Inl (ParseError, ''Cannot create parser''), d1, w)
         | Some parser \<Rightarrow>
             (case parser (full_output d1) of
                Inr repo \<Rightarrow> do {
                  let d2 = d1\<lparr>parse_status :=
                              (if parser_type = Parser_Basic then ParseStatus_Basic
                               else ParseStatus_Full)\<rparr>;
                  d3 \<leftarrow> detect_drive_type_from_properties c repo d2;
                  let d4 = d3\<lparr>property_repository :=
                              process_properties c repo (detected_type d3)\<rparr>;
                  d5 \<leftarrow> read_common_properties d4;
                  Some (Inr (), d5, w\<lparr>emitted := Suc (emitted w)\<rparr>)
                }
              | Inl message \<Rightarrow>
                  Some (Inl (ParseError, ''Cannot parse smartctl output: '' @ message), d1, w)))"

text \<open>
  The command options that \<open>fetch_full_data_and_parse\<close> selects by the detected type.
  \<open>DBG_ASSERT\<close> only reports: the two transient types leave the list empty.
\<close>

definition full_command_options :: "StorageDeviceDetectedType \<Rightarrow> string list" where
  "full_command_options t =
     (case t of
        Unknown \<Rightarrow> []
      | NeedsExplicitType \<Rightarrow> []
      | Nvme \<Rightarrow> [''--xall'']
      | BasicScsi \<Rightarrow> [''--xall'']
      | CdDvd \<Rightarrow> [''--xall'']
      | UnsupportedRaid \<Rightarrow> [''--xall'']
      | _ \<Rightarrow> [''--health'', ''--info'', ''--get=all'', ''--capabilities'', ''--attributes'',
               ''--format=brief'', ''--log=xerror,50,error'', ''--log=xselftest,50,selftest'',
               ''--log=selective'', ''--log=directory'', ''--log=scttemp'', ''--log=scterc'',
               ''--log=devstat'', ''--log=sataphy''])"

text \<open>
  \<open>StorageDevice::fetch_full_data_and_parse\<close>. The executor writes into a local string,
  which becomes \<open>full_output_\<close> only after a clean execution.
\<close>

definition fetch_full_data_and_parse ::
  "collaborators \<Rightarrow> StorageDevice \<Rightarrow> world \<Rightarrow> (ExpectedVoid \<times> StorageDevice \<times> world) option" where
  "fetch_full_data_and_parse c d w =
     (if test_is_active d
      then Some (Inl (TestRunning, ''A test is currently being performed on this drive.''), d, w)
      else
        let d1 = clear_outputs (clear_parse_results d);
            parser_type = get_default_parser_type c (detected_type d1);
            parser_format = get_default_format c parser_type;
            command_options = full_command_options (detected_type d1)
              @ (if parser_format = Json then [''--json=o''] else [])
        in case execute_device_smartctl c command_options [] False d1 w of
             (execute_status, out, d2, w2) \<Rightarrow>
               (case execute_status of
                  Inl e \<Rightarrow> Some (Inl e, d2, w2)
                | Inr _ \<Rightarrow> parse_full_data c parser_type parser_format (d2\<lparr>full_output := out\<rparr>) w2))"


text \<open>
  \<open>StorageDevice::set_smart_enabled\<close>. Nothing here reads a property, so the call always
  returns.
\<close>

definition set_smart_enabled ::
  "collaborators \<Rightarrow> bool \<Rightarrow> StorageDevice \<Rightarrow> world \<Rightarrow> ExpectedVoid \<times> StorageDevice \<times> world" where
  "set_smart_enabled c b d w =
     (if test_is_active d
      then (Inl (TestRunning, ''A test is currently being performed on this drive.''), d, w)
      else
        let on_command = [''--smart=on'', ''--saveauto=on''];
            off_command = [''--smart=off'']
        in case execute_device_smartctl c (if b then on_command else off_command) [] False d w of
             (status, output, d1, w1) \<Rightarrow>
               (case status of
                  Inl e \<Rightarrow> (Inl e, d1, w1)
                | Inr _ \<Rightarrow>
                    if app_regex_partial_match ''/^SMART Enabled/mi'' output
                       \<or> app_regex_partial_match ''/^SMART Disabled/mi'' output
                    then (Inr (), d1, w1)
                    else if app_regex_partial_match ''/^A mandatory SMART command failed/mi'' output
                    then (Inl (CommandFailed, ''Mandatory SMART command failed.''), d1, w1)
                    else (Inl (CommandUnknownError, ''Unknown error occurred.''), d1, w1)))"

section \<open>Concrete devices and collaborators for the examples\<close>

text \<open>
  The constructor \<open>StorageDevice(std::string dev, std::string type_arg)\<close>. It names
  \<open>device_\<close> and \<open>type_arg_\<close> only; the other members take their initial values from the
  class declaration, which is not among the sources, and start here empty, with the
  type \<open>Unknown\<close>, the parse status \<open>None\<close> and no test active.
\<close>

definition new_StorageDevice :: "string \<Rightarrow> string \<Rightarrow> StorageDevice" where
  "new_StorageDevice dev arg =
     \<lparr>is_virtual = False, device = dev, type_arg = arg, extra_args = [],
      detected_type = Unknown, basic_output = [], full_output = [],
      parse_status = ParseStatus_None, property_repository = Map.empty,
      smart_supported = None, smart_enabled = None, model_name = None,
      family_name = None, serial_number = None, size_str = None,
      health_property = None, test_is_active = False\<rparr>"

definition new_world :: world where
  "new_world = \<lparr>calls = [], emitted = 0\<rparr>"

definition string_property :: "string \<Rightarrow> StorageProperty" where
  "string_property s = \<lparr>pvalue = VString s, readable_value = s\<rparr>"

definition int_property :: "64 word \<Rightarrow> string \<Rightarrow> StorageProperty" where
  "int_property n shown = \<lparr>pvalue = VInt n, readable_value = shown\<rparr>"

text \<open>
  Collaborators whose executor gives the same answer to every call and whose parsers
  all give the same result: formats are text, properties are processed to themselves,
  no configured device options, a Linux kernel, and two stored type names known.
\<close>

definition stub_collaborators ::
  "string option \<times> string \<Rightarrow> string + StoragePropertyRepository \<Rightarrow> collaborators" where
  "stub_collaborators answer parsed =
     \<lparr>get_default_format = (\<lambda>_. Text),
      get_default_parser_type =
        (\<lambda>t. if t = AtaAny \<or> t = AtaHdd \<or> t = AtaSsd then Parser_Ata
             else if t = Nvme then Parser_Nvme else Parser_Basic),
      detect_output_format = (\<lambda>_. Inr Text),
      create = (\<lambda>_ _. Some (\<lambda>_. parsed)),
      process_properties = (\<lambda>repo _. repo),
      get_by_storable_name =
        (\<lambda>name default_value. if name = ''ata_any'' then AtaAny
             else if name = ''nvme'' then Nvme else default_value),
      is_kernel_linux = True,
      app_get_device_options = (\<lambda>_ _. []),
      execute_smartctl = (\<lambda>_ _ _ _. answer)\<rparr>"

text \<open>The answer of an executor run that fails and asks for a device type.\<close>

definition needs_type_answer :: "string option \<times> string" where
  "needs_type_answer =
     (Some ''smartctl exited with an error'',
      ''Please specify device type with the -d option.'')"

definition basic_command_options :: "string list" where
  "basic_command_options = [''--info'', ''--health'', ''--capabilities'']"

text \<open>
  Repositories as the parsers could leave them: an ATA disk read by the text parser, an
  ATA solid-state drive read by the JSON parser (no rotation rate, no model name), and
  a USB flash drive that only has the fallback keys and no type property.
\<close>

definition hdd_text_repository :: StoragePropertyRepository where
  "hdd_text_repository =
     Map.empty(''_text_only/custom/parser_detected_drive_type'' \<mapsto> string_property ''ata_any'',
               ''rotation_rate'' \<mapsto> int_property 7200 ''7200 rpm'',
               ''model_name'' \<mapsto> string_property ''ST1000DM003'')"

definition ssd_json_repository :: StoragePropertyRepository where
  "ssd_json_repository =
     Map.empty(''device/type'' \<mapsto> string_property ''sat'',
               ''device/protocol'' \<mapsto> string_property ''ATA'')"

definition flash_repository :: StoragePropertyRepository where
  "flash_repository =
     Map.empty(''scsi_model_name'' \<mapsto> string_property ''Flash Disk'',
               ''scsi_vendor'' \<mapsto> string_property ''Generic'',
               ''serial_number'' \<mapsto> string_property ''0123456789'',
               ''user_capacity/bytes'' \<mapsto> int_property 8004304896 ''7.45 GiB'')"

text \<open>A device that already holds the results of a full parse.\<close>

definition parsed_device :: StorageDevice where
  "parsed_device =
     (new_StorageDevice ''/dev/sda'' [])
       \<lparr>detected_type := AtaHdd, full_output := ''not smartctl output'',
        parse_status := ParseStatus_Full, property_repository := hdd_text_repository,
        model_name := Some ''ST1000DM003''\<rparr>"

section \<open>What each step leaves unchanged\<close>

lemma detect_from_text_property_only_type:
  "detect_from_text_property c r d = Some d' \<Longrightarrow> d' = d\<lparr>detected_type := detected_type d'\<rparr>"
  by (auto simp: detect_from_text_property_def Let_def split: if_splits Option.bind_splits)

lemma json_branches_only_type:
  assumes "(if A then (if B then Some (d\<lparr>detected_type := CdDvd\<rparr>)
                       else Some (d\<lparr>detected_type := BasicScsi\<rparr>))
            else if C then Option.bind h (\<lambda>t. Some (d\<lparr>detected_type := t\<rparr>))
            else if D then Some (d\<lparr>detected_type := Nvme\<rparr>)
            else Some d) = Some d'"
  shows "d' = d\<lparr>detected_type := detected_type d'\<rparr>"
  using assms by (auto split: if_splits Option.bind_splits)

lemma bind2_Some:
  assumes "Option.bind X (\<lambda>a. Option.bind Y (\<lambda>b. F a b)) = Some r"
  obtains a b where "X = Some a" "Y = Some b" "F a b = Some r"
  using assms by (auto simp: bind_eq_Some_conv)

lemma detect_from_json_property_only_type:
  assumes "detect_from_json_property c r d = Some d'"
  shows "d' = d\<lparr>detected_type := detected_type d'\<rparr>"
proof (cases "empty (lookup_property r ''device/type'')")
  case True
  with assms show ?thesis by (simp add: detect_from_json_property_def)
next
  case False
  show ?thesis
    using assms unfolding detect_from_json_property_def Let_def if_P[OF False]
    by (elim bind2_Some json_branches_only_type)
qed

lemma detect_drive_type_only_type:
  assumes "detect_drive_type_from_properties c r d = Some d'"
  shows "d' = d\<lparr>detected_type := detected_type d'\<rparr>"
proof -
  from assms obtain d1 d2 where
    t: "detect_from_text_property c r d = Some d1" and
    j: "detect_from_json_property c r d1 = Some d2" and
    f: "d' = (if detected_type d2 = Unknown then d2\<lparr>detected_type := BasicScsi\<rparr> else d2)"
    by (auto simp: detect_drive_type_from_properties_def split: Option.bind_splits)
  from detect_from_text_property_only_type[OF t] detect_from_json_property_only_type[OF j] f
  show ?thesis
    by (metis (no_types, lifting) StorageDevice.surjective StorageDevice.update_convs(5))
qed

lemma detect_drive_type_frame:
  assumes "detect_drive_type_from_properties c r d = Some d'"
  shows "type_arg d' = type_arg d \<and> parse_status d' = parse_status d
       \<and> property_repository d' = property_repository d \<and> model_name d' = model_name d
       \<and> device d' = device d \<and> is_virtual d' = is_virtual d"
proof -
  note eq = detect_drive_type_only_type[OF assms]
  show ?thesis
    using arg_cong[OF eq, of type_arg] arg_cong[OF eq, of parse_status]
      arg_cong[OF eq, of property_repository] arg_cong[OF eq, of model_name]
      arg_cong[OF eq, of device] arg_cong[OF eq, of is_virtual]
    by simp
qed

lemma read_smart_supported_frame:
  "read_smart_supported d = Some d' \<Longrightarrow> d' = d\<lparr>smart_supported := smart_supported d'\<rparr>"
  by (auto simp: read_smart_supported_def Let_def split: if_splits Option.bind_splits)

lemma read_smart_enabled_frame:
  "read_smart_enabled d = Some d' \<Longrightarrow> d' = d\<lparr>smart_enabled := smart_enabled d'\<rparr>"
  by (auto simp: read_smart_enabled_def Let_def split: if_splits Option.bind_splits)

lemma read_model_name_frame:
  "read_model_name d = Some d' \<Longrightarrow> d' = d\<lparr>model_name := model_name d'\<rparr>"
  by (auto simp: read_model_name_def Let_def split: if_splits Option.bind_splits)

lemma read_family_name_frame:
  "read_family_name d = Some d' \<Longrightarrow> d' = d\<lparr>family_name := family_name d'\<rparr>"
  by (auto simp: read_family_name_def Let_def split: if_splits Option.bind_splits)

lemma read_serial_number_frame:
  "read_serial_number d = Some d' \<Longrightarrow> d' = d\<lparr>serial_number := serial_number d'\<rparr>"
  by (auto simp: read_serial_number_def Let_def split: if_splits Option.bind_splits)

lemma read_size_frame: "read_size d = d\<lparr>size_str := size_str (read_size d)\<rparr>"
  by (simp add: read_size_def Let_def)

lemma read_common_properties_steps:
  assumes "read_common_properties d = Some d'"
  obtains d1 d2 d3 d4 d5 where
    "read_smart_supported d = Some d1" "read_smart_enabled d1 = Some d2"
    "read_model_name d2 = Some d3" "read_family_name d3 = Some d4"
    "read_serial_number d4 = Some d5" "d' = read_size d5"
  using assms unfolding read_common_properties_def
  by (auto split: Option.bind_splits)

lemma read_common_properties_frame:
  assumes "read_common_properties d = Some d'"
  shows "type_arg d' = type_arg d \<and> detected_type d' = detected_type d
       \<and> parse_status d' = parse_status d \<and> property_repository d' = property_repository d
       \<and> device d' = device d \<and> is_virtual d' = is_virtual d"
proof -
  from assms obtain d1 d2 d3 d4 d5 where
    s1: "read_smart_supported d = Some d1" and s2: "read_smart_enabled d1 = Some d2" and
    s3: "read_model_name d2 = Some d3" and s4: "read_family_name d3 = Some d4" and
    s5: "read_serial_number d4 = Some d5" and s6: "d' = read_size d5"
    by (rule read_common_properties_steps)
  note e1 = read_smart_supported_frame[OF s1] and e2 = read_smart_enabled_frame[OF s2]
    and e3 = read_model_name_frame[OF s3] and e4 = read_family_name_frame[OF s4]
    and e5 = read_serial_number_frame[OF s5] and e6 = read_size_frame[of d5]
  have "type_arg d' = type_arg d"
    using arg_cong[OF e1, of type_arg] arg_cong[OF e2, of type_arg] arg_cong[OF e3, of type_arg]
      arg_cong[OF e4, of type_arg] arg_cong[OF e5, of type_arg] arg_cong[OF e6, of type_arg] s6
    by simp
  moreover have "detected_type d' = detected_type d"
    using arg_cong[OF e1, of detected_type] arg_cong[OF e2, of detected_type]
      arg_cong[OF e3, of detected_type] arg_cong[OF e4, of detected_type]
      arg_cong[OF e5, of detected_type] arg_cong[OF e6, of detected_type] s6
    by simp
  moreover have "parse_status d' = parse_status d"
    using arg_cong[OF e1, of parse_status] arg_cong[OF e2, of parse_status]
      arg_cong[OF e3, of parse_status] arg_cong[OF e4, of parse_status]
      arg_cong[OF e5, of parse_status] arg_cong[OF e6, of parse_status] s6
    by simp
  moreover have "property_repository d' = property_repository d"
    using arg_cong[OF e1, of property_repository] arg_cong[OF e2, of property_repository]
      arg_cong[OF e3, of property_repository] arg_cong[OF e4, of property_repository]
      arg_cong[OF e5, of property_repository] arg_cong[OF e6, of property_repository] s6
    by simp
  moreover have "device d' = device d"
    using arg_cong[OF e1, of device] arg_cong[OF e2, of device] arg_cong[OF e3, of device]
      arg_cong[OF e4, of device] arg_cong[OF e5, of device] arg_cong[OF e6, of device] s6
    by simp
  moreover have "is_virtual d' = is_virtual d"
    using arg_cong[OF e1, of is_virtual] arg_cong[OF e2, of is_virtual]
      arg_cong[OF e3, of is_virtual] arg_cong[OF e4, of is_virtual]
      arg_cong[OF e5, of is_virtual] arg_cong[OF e6, of is_virtual] s6
    by simp
  ultimately show ?thesis by simp
qed

lemma parse_basic_data_frame:
  assumes "parse_basic_data c d w = Some (r, d', w')"
  shows "type_arg d' = type_arg d \<and> calls w' = calls w"
proof (cases r)
  case (Inl e)
  with assms show ?thesis
    by (auto simp: parse_basic_data_def Let_def clear_parse_results_def
      split: option.splits sum.splits Option.bind_splits)
next
  case (Inr u)
  with assms obtain repo d2 d4 where
    a: "detect_drive_type_from_properties c repo (clear_parse_results d) = Some d2" and
    b: "read_common_properties
          (d2\<lparr>property_repository := process_properties c repo (detected_type d2)\<rparr>) = Some d4" and
    c: "d' = d4\<lparr>parse_status := (if model_name d4 \<noteq> None then ParseStatus_Basic
                                   else ParseStatus_None)\<rparr>" and
    d: "w' = w\<lparr>emitted := Suc (emitted w)\<rparr>"
    by (auto simp: parse_basic_data_def Let_def split: option.splits sum.splits Option.bind_splits)
  from detect_drive_type_frame[OF a] read_common_properties_frame[OF b] c d
  show ?thesis by (simp add: clear_parse_results_def)
qed

section \<open>The SMART status table\<close>

text \<open>
  Claim C2. For each of the nine combinations of the cached smart-enabled flag (true,
  false, unknown) and smart-supported flag (true, false, unknown), \<open>get_smart_status\<close>
  returns the entry of the precedence table: enabled gives Enabled whatever the
  support; disabled gives Disabled when supported or of unknown support, Unsupported
  when unsupported; unknown gives Disabled when supported, Unsupported when unsupported
  or of unknown support. The accessor of the older source file gives the same nine
  entries.
\<close>

theorem get_smart_status_precedence_table:
  "get_smart_status (d\<lparr>smart_enabled := Some True, smart_supported := Some True\<rparr>) = Enabled
 \<and> get_smart_status (d\<lparr>smart_enabled := Some True, smart_supported := Some False\<rparr>) = Enabled
 \<and> get_smart_status (d\<lparr>smart_enabled := Some True, smart_supported := None\<rparr>) = Enabled
 \<and> get_smart_status (d\<lparr>smart_enabled := Some False, smart_supported := Some True\<rparr>) = Disabled
 \<and> get_smart_status (d\<lparr>smart_enabled := Some False, smart_supported := Some False\<rparr>) = Unsupported
 \<and> get_smart_status (d\<lparr>smart_enabled := Some False, smart_supported := None\<rparr>) = Disabled
 \<and> get_smart_status (d\<lparr>smart_enabled := None, smart_supported := Some True\<rparr>) = Disabled
 \<and> get_smart_status (d\<lparr>smart_enabled := None, smart_supported := Some False\<rparr>) = Unsupported
 \<and> get_smart_status (d\<lparr>smart_enabled := None, smart_supported := None\<rparr>) = Unsupported
 \<and> get_smart_status_legacy (Some True) (Some True) = status_enabled
 \<and> get_smart_status_legacy (Some True) (Some False) = status_enabled
 \<and> get_smart_status_legacy (Some True) None = status_enabled
 \<and> get_smart_status_legacy (Some False) (Some True) = status_disabled
 \<and> get_smart_status_legacy (Some False) (Some False) = status_unsupported
 \<and> get_smart_status_legacy (Some False) None = status_disabled
 \<and> get_smart_status_legacy None (Some True) = status_disabled
 \<and> get_smart_status_legacy None (Some False) = status_unsupported
 \<and> get_smart_status_legacy None None = status_unsupported"
  by (simp add: get_smart_status_def get_smart_status_legacy_def)

section \<open>The test-active guard\<close>

text \<open>
  Claim C3. While the test-active flag is set, \<open>fetch_basic_data_and_parse\<close>,
  \<open>fetch_full_data_and_parse\<close> and \<open>set_smart_enabled\<close> each return the \<open>TestRunning\<close>
  error at once: the device is returned as it was, and so is the world, so the
  executor was not run and no change was signalled.
\<close>

theorem test_active_guard:
  assumes "test_is_active d"
  shows "fetch_basic_data_and_parse c d w =
           Some (Inl (TestRunning, ''A test is currently being performed on this drive.''), d, w)
       \<and> fetch_full_data_and_parse c d w =
           Some (Inl (TestRunning, ''A test is currently being performed on this drive.''), d, w)
       \<and> set_smart_enabled c b d w =
           (Inl (TestRunning, ''A test is currently being performed on this drive.''), d, w)"
  using assms
  by (simp add: fetch_basic_data_and_parse.simps fetch_full_data_and_parse_def
      set_smart_enabled_def)

theorem test_active_guard_witness:
  "test_is_active ((new_StorageDevice ''/dev/sda'' [])\<lparr>test_is_active := True\<rparr>)
 \<and> fetch_basic_data_and_parse (stub_collaborators needs_type_answer (Inl ''no version''))
      ((new_StorageDevice ''/dev/sda'' [])\<lparr>test_is_active := True\<rparr>) new_world =
      Some (Inl (TestRunning, ''A test is currently being performed on this drive.''),
            (new_StorageDevice ''/dev/sda'' [])\<lparr>test_is_active := True\<rparr>, new_world)
 \<and> fetch_full_data_and_parse (stub_collaborators needs_type_answer (Inl ''no version''))
      ((new_StorageDevice ''/dev/sda'' [])\<lparr>test_is_active := True\<rparr>) new_world =
      Some (Inl (TestRunning, ''A test is currently being performed on this drive.''),
            (new_StorageDevice ''/dev/sda'' [])\<lparr>test_is_active := True\<rparr>, new_world)
 \<and> set_smart_enabled (stub_collaborators needs_type_answer (Inl ''no version'')) True
      ((new_StorageDevice ''/dev/sda'' [])\<lparr>test_is_active := True\<rparr>) new_world =
      (Inl (TestRunning, ''A test is currently being performed on this drive.''),
       (new_StorageDevice ''/dev/sda'' [])\<lparr>test_is_active := True\<rparr>, new_world)"
  using test_active_guard
    [of "(new_StorageDevice ''/dev/sda'' [])\<lparr>test_is_active := True\<rparr>"
        "stub_collaborators needs_type_answer (Inl ''no version'')" new_world True]
  by (simp add: new_StorageDevice_def)

section \<open>The ambiguous-type retry of the basic fetch\<close>

lemma execute_device_smartctl_failing:
  assumes "\<not> is_virtual d"
    and "fst (execute_smartctl c (calls w) (device d) (get_device_options c d) cmd) \<noteq> None"
  shows "execute_device_smartctl c cmd buf check d w =
    (Inl (ExecutionError, the (fst (execute_smartctl c (calls w) (device d) (get_device_options c d) cmd))),
     snd (execute_smartctl c (calls w) (device d) (get_device_options c d) cmd),
     (if check \<and> detected_type d = Unknown
         \<and> app_regex_partial_match ''/specify device type with the -d option/mi''
              (snd (execute_smartctl c (calls w) (device d) (get_device_options c d) cmd))
      then d\<lparr>detected_type := NeedsExplicitType\<rparr> else d),
     w\<lparr>calls := calls w @ [(device d, get_device_options c d, cmd)]\<rparr>)"
  using assms
  by (cases "execute_smartctl c (calls w) (device d) (get_device_options c d) cmd")
     (auto simp: execute_device_smartctl_def Let_def)

lemma fetch_basic_retry_step:
  assumes "\<not> test_is_active d" "\<not> is_virtual d" "type_arg d = []"
    and "detected_type d = Unknown \<or> detected_type d = NeedsExplicitType"
    and "cmd = [''--info'', ''--health'', ''--capabilities'']
              @ (if get_default_format c Parser_Basic = Json then [''--json=o''] else [])"
    and "opts = extra_args d @ app_get_device_options c (device d) []"
    and "fst (execute_smartctl c (calls w) (device d) opts cmd) \<noteq> None"
    and "app_regex_partial_match ''/specify device type with the -d option/mi''
           (snd (execute_smartctl c (calls w) (device d) opts cmd))"
  shows "fetch_basic_data_and_parse c d w =
     fetch_basic_data_and_parse c
       ((clear_outputs (clear_parse_results d))
          \<lparr>basic_output := snd (execute_smartctl c (calls w) (device d) opts cmd),
           type_arg := ''scsi'', detected_type := BasicScsi\<rparr>)
       (w\<lparr>calls := calls w @ [(device d, opts, cmd)]\<rparr>)"
proof -
  let ?d1 = "clear_outputs (clear_parse_results d)"
  have o: "get_device_options c ?d1 = opts"
    using assms(2,3,6) by (simp add: get_device_options_def clear_outputs_def clear_parse_results_def)
  have dv: "device ?d1 = device d" "\<not> is_virtual ?d1" "detected_type ?d1 = detected_type d"
       "type_arg ?d1 = []" "basic_output ?d1 = []"
    using assms(2,3) by (simp_all add: clear_outputs_def clear_parse_results_def)
  have e: "execute_device_smartctl c cmd [] True ?d1 w =
    (Inl (ExecutionError, the (fst (execute_smartctl c (calls w) (device d) opts cmd))),
     snd (execute_smartctl c (calls w) (device d) opts cmd),
     ?d1\<lparr>detected_type := NeedsExplicitType\<rparr>,
     w\<lparr>calls := calls w @ [(device d, opts, cmd)]\<rparr>)"
    using execute_device_smartctl_failing[of ?d1 c w cmd "[]" True] assms(4,7,8) dv o
    by (auto simp: clear_outputs_def clear_parse_results_def)
  show ?thesis
    apply (subst fetch_basic_data_and_parse.simps)
    using assms(1) e dv unfolding assms(5)[symmetric] Let_def
    by (simp add: clear_outputs_def clear_parse_results_def)
qed

lemma fetch_basic_no_retry_step:
  assumes "\<not> test_is_active d" "\<not> is_virtual d" "type_arg d \<noteq> [] \<or> (detected_type d \<noteq> Unknown \<and> detected_type d \<noteq> NeedsExplicitType)"
    and "cmd = [''--info'', ''--health'', ''--capabilities'']
              @ (if get_default_format c Parser_Basic = Json then [''--json=o''] else [])"
    and "opts = get_device_options c d"
    and "fst (execute_smartctl c (calls w) (device d) opts cmd) \<noteq> None"
  shows "fetch_basic_data_and_parse c d w =
     parse_basic_data c
       ((clear_outputs (clear_parse_results d))
          \<lparr>detected_type := (if detected_type d = Unknown
               \<and> app_regex_partial_match ''/specify device type with the -d option/mi''
                    (snd (execute_smartctl c (calls w) (device d) opts cmd))
             then NeedsExplicitType else detected_type d),
           basic_output := snd (execute_smartctl c (calls w) (device d) opts cmd)\<rparr>)
       (w\<lparr>calls := calls w @ [(device d, opts, cmd)]\<rparr>)"
proof -
  let ?d1 = "clear_outputs (clear_parse_results d)"
  have o: "get_device_options c ?d1 = opts"
    using assms(2,5) by (simp add: get_device_options_def clear_outputs_def clear_parse_results_def)
  have dv: "device ?d1 = device d" "\<not> is_virtual ?d1" "detected_type ?d1 = detected_type d"
       "type_arg ?d1 = type_arg d" "basic_output ?d1 = []"
    using assms(2) by (simp_all add: clear_outputs_def clear_parse_results_def)
  have e: "execute_device_smartctl c cmd [] True ?d1 w =
    (Inl (ExecutionError, the (fst (execute_smartctl c (calls w) (device d) opts cmd))),
     snd (execute_smartctl c (calls w) (device d) opts cmd),
     (if detected_type d = Unknown
         \<and> app_regex_partial_match ''/specify device type with the -d option/mi''
              (snd (execute_smartctl c (calls w) (device d) opts cmd))
      then ?d1\<lparr>detected_type := NeedsExplicitType\<rparr> else ?d1),
     w\<lparr>calls := calls w @ [(device d, opts, cmd)]\<rparr>)"
    using execute_device_smartctl_failing[of ?d1 c w cmd "[]" True] assms(6) dv o
    by simp
  show ?thesis
    apply (subst fetch_basic_data_and_parse.simps)
    using assms(1,3) e dv unfolding assms(4)[symmetric] Let_def
    by (auto simp: clear_outputs_def clear_parse_results_def)
qed

lemma to_lower_chain:
  "to_lower ch =
     (if ch = CHR ''A'' then CHR ''a'' else if ch = CHR ''B'' then CHR ''b''
      else if ch = CHR ''C'' then CHR ''c'' else if ch = CHR ''D'' then CHR ''d''
      else if ch = CHR ''E'' then CHR ''e'' else if ch = CHR ''F'' then CHR ''f''
      else if ch = CHR ''G'' then CHR ''g'' else if ch = CHR ''H'' then CHR ''h''
      else if ch = CHR ''I'' then CHR ''i'' else if ch = CHR ''J'' then CHR ''j''
      else if ch = CHR ''K'' then CHR ''k'' else if ch = CHR ''L'' then CHR ''l''
      else if ch = CHR ''M'' then CHR ''m'' else if ch = CHR ''N'' then CHR ''n''
      else if ch = CHR ''O'' then CHR ''o'' else if ch = CHR ''P'' then CHR ''p''
      else if ch = CHR ''Q'' then CHR ''q'' else if ch = CHR ''R'' then CHR ''r''
      else if ch = CHR ''S'' then CHR ''s'' else if ch = CHR ''T'' then CHR ''t''
      else if ch = CHR ''U'' then CHR ''u'' else if ch = CHR ''V'' then CHR ''v''
      else if ch = CHR ''W'' then CHR ''w'' else if ch = CHR ''X'' then CHR ''x''
      else if ch = CHR ''Y'' then CHR ''y'' else if ch = CHR ''Z'' then CHR ''z''
      else ch)"
  by (simp add: to_lower_def)

lemma list_ex_tails_append:
  "P t \<Longrightarrow> list_ex P (tails (pre @ t))"
  by (induction pre) (cases t, simp_all)

lemma needs_type_answer_asks:
  "app_regex_partial_match ''/specify device type with the -d option/mi''
     ''Please specify device type with the -d option.''"
proof -
  have "starts_with_nocase ''specify device type with the -d option.''
          ''specify device type with the -d option''"
    by (simp add: starts_with_nocase_def starts_with_def string_to_lower_copy_def to_lower_chain)
  then have "list_ex (\<lambda>t. starts_with_nocase t ''specify device type with the -d option'')
     (tails (''Please '' @ ''specify device type with the -d option.''))"
    by (rule list_ex_tails_append)
  then show ?thesis by (simp add: app_regex_partial_match_def)
qed

text \<open>
  Claim C1, as amended. Take a device that is not virtual, has no test active, has no
  interface-type override yet and has a transient detected type (\<open>Unknown\<close> or
  \<open>NeedsExplicitType\<close>), and an executor whose every run fails with output that asks to
  specify the device type. Then one call of \<open>fetch_basic_data_and_parse\<close> retries exactly
  once: it equals \<open>parse_basic_data\<close> on the state of the second attempt, in which the
  override is \<open>scsi\<close>, the detected type is \<open>BasicScsi\<close> and the executor has been run
  exactly twice, the second time with \<open>-d scsi\<close>; no third run happens. Whenever the call
  returns, the override is \<open>scsi\<close> and the executor runs are these two.
\<close>

theorem ambiguous_type_retry_fires_once:
  assumes "\<not> test_is_active d" and "\<not> is_virtual d" and "type_arg d = []"
    and "detected_type d = Unknown \<or> detected_type d = NeedsExplicitType"
    and "\<forall>hist dev opts cmd.
           fst (execute_smartctl c hist dev opts cmd) \<noteq> None
         \<and> app_regex_partial_match ''/specify device type with the -d option/mi''
               (snd (execute_smartctl c hist dev opts cmd))"
  shows "let cmd = [''--info'', ''--health'', ''--capabilities'']
                     @ (if get_default_format c Parser_Basic = Json then [''--json=o''] else []);
             first_call = (device d, extra_args d @ app_get_device_options c (device d) [], cmd);
             second_opts = [''-d'', ''scsi''] @ extra_args d
                             @ app_get_device_options c (device d) ''scsi'';
             second_call = (device d, second_opts, cmd);
             second_output = snd (execute_smartctl c (calls w @ [first_call]) (device d)
                                    second_opts cmd);
             d2 = (clear_outputs (clear_parse_results d))
                    \<lparr>type_arg := ''scsi'', detected_type := BasicScsi,
                     basic_output := second_output\<rparr>;
             w2 = w\<lparr>calls := calls w @ [first_call, second_call]\<rparr>
         in fetch_basic_data_and_parse c d w = parse_basic_data c d2 w2
          \<and> (\<forall>r d' w'. fetch_basic_data_and_parse c d w = Some (r, d', w')
                \<longrightarrow> type_arg d' = ''scsi'' \<and> calls w' = calls w @ [first_call, second_call])"
proof -
  define cmd where "cmd = [''--info'', ''--health'', ''--capabilities'']
                     @ (if get_default_format c Parser_Basic = Json then [''--json=o''] else [])"
  define opts1 where "opts1 = extra_args d @ app_get_device_options c (device d) []"
  define opts2 where "opts2 = [''-d'', ''scsi''] @ extra_args d
                                @ app_get_device_options c (device d) ''scsi''"
  define out1 where "out1 = snd (execute_smartctl c (calls w) (device d) opts1 cmd)"
  define w1 where "w1 = w\<lparr>calls := calls w @ [(device d, opts1, cmd)]\<rparr>"
  define d1 where "d1 = (clear_outputs (clear_parse_results d))
                          \<lparr>basic_output := out1, type_arg := ''scsi'', detected_type := BasicScsi\<rparr>"
  define out2 where "out2 = snd (execute_smartctl c (calls w @ [(device d, opts1, cmd)])
                                 (device d) opts2 cmd)"
  define d2 where "d2 = (clear_outputs (clear_parse_results d))
                          \<lparr>type_arg := ''scsi'', detected_type := BasicScsi, basic_output := out2\<rparr>"
  define w2 where "w2 = w\<lparr>calls := calls w @ [(device d, opts1, cmd), (device d, opts2, cmd)]\<rparr>"
  have fails: "fst (execute_smartctl c h dv os cm) \<noteq> None" for h dv os cm
    using assms(5) by blast
  have asks: "app_regex_partial_match ''/specify device type with the -d option/mi''
      (snd (execute_smartctl c h dv os cm))" for h dv os cm
    using assms(5) by blast
  have first: "fetch_basic_data_and_parse c d w = fetch_basic_data_and_parse c d1 w1"
    unfolding d1_def w1_def out1_def
    by (rule fetch_basic_retry_step[OF assms(1-4) cmd_def opts1_def fails asks])
  have d1_facts: "\<not> test_is_active d1" "\<not> is_virtual d1" "type_arg d1 \<noteq> []"
      "device d1 = device d" "get_device_options c d1 = opts2" "detected_type d1 = BasicScsi"
    using assms(1,2)
    by (simp_all add: d1_def opts2_def get_device_options_def clear_outputs_def
        clear_parse_results_def)
  have "fetch_basic_data_and_parse c d1 w1 =
     parse_basic_data c
       ((clear_outputs (clear_parse_results d1))
          \<lparr>detected_type := (if detected_type d1 = Unknown
               \<and> app_regex_partial_match ''/specify device type with the -d option/mi''
                    (snd (execute_smartctl c (calls w1) (device d1) opts2 cmd))
             then NeedsExplicitType else detected_type d1),
           basic_output := snd (execute_smartctl c (calls w1) (device d1) opts2 cmd)\<rparr>)
       (w1\<lparr>calls := calls w1 @ [(device d1, opts2, cmd)]\<rparr>)"
    by (rule fetch_basic_no_retry_step[OF d1_facts(1,2) _ cmd_def d1_facts(5)[symmetric] fails])
       (simp add: d1_facts)
  also have "(clear_outputs (clear_parse_results d1))
          \<lparr>detected_type := (if detected_type d1 = Unknown
               \<and> app_regex_partial_match ''/specify device type with the -d option/mi''
                    (snd (execute_smartctl c (calls w1) (device d1) opts2 cmd))
             then NeedsExplicitType else detected_type d1),
           basic_output := snd (execute_smartctl c (calls w1) (device d1) opts2 cmd)\<rparr> = d2"
    by (simp add: d1_facts d2_def out2_def w1_def)
       (simp add: d1_def clear_outputs_def clear_parse_results_def)
  also have "w1\<lparr>calls := calls w1 @ [(device d1, opts2, cmd)]\<rparr> = w2"
    by (simp add: w1_def w2_def d1_facts)
  finally have second: "fetch_basic_data_and_parse c d1 w1 = parse_basic_data c d2 w2" .
  have eq: "fetch_basic_data_and_parse c d w = parse_basic_data c d2 w2"
    using first second by simp
  have fin: "type_arg d' = ''scsi'' \<and> calls w' = calls w @ [(device d, opts1, cmd), (device d, opts2, cmd)]"
    if "fetch_basic_data_and_parse c d w = Some (r, d', w')" for r d' w'
    using parse_basic_data_frame[of c d2 w2 r d' w'] that eq
    by (simp add: d2_def w2_def clear_outputs_def clear_parse_results_def)
  have both: "fetch_basic_data_and_parse c d w = parse_basic_data c d2 w2
      \<and> (\<forall>r d' w'. fetch_basic_data_and_parse c d w = Some (r, d', w')
            \<longrightarrow> type_arg d' = ''scsi''
              \<and> calls w' = calls w @ [(device d, opts1, cmd), (device d, opts2, cmd)])"
    using eq fin by blast
  show ?thesis
    unfolding Let_def
    using both
    unfolding cmd_def opts1_def opts2_def d2_def w2_def out2_def
    by this
qed

theorem ambiguous_type_retry_fires_once_witness:
  "\<not> test_is_active (new_StorageDevice ''/dev/sda'' [])
 \<and> \<not> is_virtual (new_StorageDevice ''/dev/sda'' [])
 \<and> type_arg (new_StorageDevice ''/dev/sda'' []) = []
 \<and> detected_type (new_StorageDevice ''/dev/sda'' []) = Unknown
 \<and> fetch_basic_data_and_parse (stub_collaborators needs_type_answer (Inl ''no version''))
      (new_StorageDevice ''/dev/sda'' []) new_world =
    Some (Inl (ParseError, ''Cannot parse smartctl output: no version''),
          (new_StorageDevice ''/dev/sda'' [])
            \<lparr>type_arg := ''scsi'', detected_type := BasicScsi,
             basic_output := ''Please specify device type with the -d option.''\<rparr>,
          \<lparr>calls = [(''/dev/sda'', [], basic_command_options),
                    (''/dev/sda'', [''-d'', ''scsi''], basic_command_options)],
           emitted = 0\<rparr>)"
proof -
  let ?c = "stub_collaborators needs_type_answer (Inl ''no version'')"
  let ?d = "new_StorageDevice ''/dev/sda'' []"
  have h1: "\<not> test_is_active ?d" and h2: "\<not> is_virtual ?d" and h3: "type_arg ?d = []"
    and h4: "detected_type ?d = Unknown \<or> detected_type ?d = NeedsExplicitType"
    by (simp_all add: new_StorageDevice_def)
  have h5: "\<forall>hist dev opts cmd.
           fst (execute_smartctl ?c hist dev opts cmd) \<noteq> None
         \<and> app_regex_partial_match ''/specify device type with the -d option/mi''
               (snd (execute_smartctl ?c hist dev opts cmd))"
    using needs_type_answer_asks by (simp add: stub_collaborators_def needs_type_answer_def)
  note t = ambiguous_type_retry_fires_once[OF h1 h2 h3 h4 h5, of new_world, unfolded Let_def,
      THEN conjunct1]
  show ?thesis
    unfolding t
    by (simp add: stub_collaborators_def needs_type_answer_def new_StorageDevice_def
        new_world_def basic_command_options_def clear_outputs_def clear_parse_results_def
        parse_basic_data_def)
qed

text \<open>
  Claim C1 as stated speaks of every non-virtual device. A device created with the
  override \<open>sat\<close> and served by the same executor does not retry: the executor runs
  once, the override stays \<open>sat\<close>, and the detected type is left at
  \<open>NeedsExplicitType\<close>.
\<close>

theorem retry_skipped_with_override_counterexample:
  "fetch_basic_data_and_parse (stub_collaborators needs_type_answer (Inl ''no version''))
      (new_StorageDevice ''/dev/sda'' ''sat'') new_world =
    Some (Inl (ParseError, ''Cannot parse smartctl output: no version''),
          (new_StorageDevice ''/dev/sda'' ''sat'')
            \<lparr>detected_type := NeedsExplicitType,
             basic_output := ''Please specify device type with the -d option.''\<rparr>,
          \<lparr>calls = [(''/dev/sda'', [''-d'', ''sat''], basic_command_options)], emitted = 0\<rparr>)"
  using needs_type_answer_asks
  by (simp add: fetch_basic_data_and_parse.simps stub_collaborators_def needs_type_answer_def
      new_StorageDevice_def new_world_def basic_command_options_def clear_outputs_def
      clear_parse_results_def execute_device_smartctl_def get_device_options_def
      parse_basic_data_def)

section \<open>The type resolver\<close>

lemma hdd_or_ssd_value:
  assumes "hdd_or_ssd r = Some t"
  shows "t = (if empty (lookup_property r ''rotation_rate'')
                 \<or> pvalue (lookup_property r ''rotation_rate'') = VInt 0
              then AtaSsd else AtaHdd)"
  using assms
  by (auto simp: hdd_or_ssd_def Let_def empty_def split: if_splits Option.bind_splits
      property_value.splits)

lemma text_branches_cases:
  assumes "(if \<not> E then Option.bind G (\<lambda>s. if f s = AtaAny
                 then Option.bind h (\<lambda>t. Some (u s t)) else Some (v s))
            else Some d) = Some d1"
    and "\<And>s t. sel (u s t) = t" and "\<And>s. sel (v s) = g s" and "\<And>s. f s = g s"
  shows "(E \<and> d1 = d)
       \<or> (\<exists>s. G = Some s
             \<and> (if g s = AtaAny then h = Some (sel d1) else sel d1 = g s))"
  using assms by (auto split: if_splits Option.bind_splits)

lemma get_value_string_Some:
  "get_value_string p = Some s \<longleftrightarrow> pvalue p = VString s"
  by (auto split: property_value.splits)

lemma text_block_cases:
  assumes "detect_from_text_property c r d = Some d1"
  shows "(empty (lookup_property r ''_text_only/custom/parser_detected_drive_type'')
            \<and> d1 = d)
       \<or> (\<exists>s. pvalue (lookup_property r ''_text_only/custom/parser_detected_drive_type'')
                 = VString s
             \<and> (if get_by_storable_name c s BasicScsi = AtaAny
                 then hdd_or_ssd r = Some (detected_type d1)
                 else detected_type d1 = get_by_storable_name c s BasicScsi))"
  using text_branches_cases[OF assms[unfolded detect_from_text_property_def Let_def],
      of detected_type "\<lambda>s. get_by_storable_name c s BasicScsi"]
  unfolding get_value_string_Some
  by simp


lemma json_branches_cases:
  assumes "(if A then (if B then Some (d\<lparr>detected_type := CdDvd\<rparr>)
                       else Some (d\<lparr>detected_type := BasicScsi\<rparr>))
            else if C then Option.bind h (\<lambda>t. Some (d\<lparr>detected_type := t\<rparr>))
            else if D then Some (d\<lparr>detected_type := Nvme\<rparr>)
            else Some d) = Some d'"
  shows "(A \<and> (detected_type d' = CdDvd \<or> detected_type d' = BasicScsi))
       \<or> (\<not> A \<and> C \<and> h = Some (detected_type d'))
       \<or> (\<not> A \<and> \<not> C \<and> D \<and> detected_type d' = Nvme)
       \<or> (\<not> A \<and> \<not> C \<and> \<not> D \<and> d' = d)"
  using assms by (auto split: if_splits Option.bind_splits)

lemma json_block_cases:
  assumes "detect_from_json_property c r d1 = Some d2"
  shows "(empty (lookup_property r ''device/type'') \<and> d2 = d1)
       \<or> (\<exists>t lp. pvalue (lookup_property r ''device/type'') = VString t
             \<and> lowercase_protocol r = Some lp
             \<and> ((t = ''scsi'' \<and> (detected_type d2 = CdDvd \<or> detected_type d2 = BasicScsi))
               \<or> (t \<noteq> ''scsi'' \<and> (t = ''sat'' \<or> lp = ''ata'')
                    \<and> hdd_or_ssd r = Some (detected_type d2))
               \<or> (t \<noteq> ''scsi'' \<and> \<not> (t = ''sat'' \<or> lp = ''ata'')
                    \<and> (t = ''nvme'' \<or> lp = ''nvme'') \<and> detected_type d2 = Nvme)
               \<or> (t \<noteq> ''scsi'' \<and> \<not> (t = ''sat'' \<or> lp = ''ata'')
                    \<and> \<not> (t = ''nvme'' \<or> lp = ''nvme'') \<and> d2 = d1)))"
proof (cases "empty (lookup_property r ''device/type'')")
  case True
  with assms show ?thesis by (simp add: detect_from_json_property_def)
next
  case False
  from assms obtain t lp where
    t: "get_value_string (lookup_property r ''device/type'') = Some t" and
    lp: "lowercase_protocol r = Some lp" and
    br: "(if t = ''scsi'' then
          (if is_kernel_linux c \<and> starts_with (get_device_base d1) ''sr''
           then Some (d1\<lparr>detected_type := CdDvd\<rparr>)
           else Some (d1\<lparr>detected_type := BasicScsi\<rparr>))
        else if t = ''sat'' \<or> lp = ''ata''
        then Option.bind (hdd_or_ssd r) (\<lambda>t. Some (d1\<lparr>detected_type := t\<rparr>))
        else if t = ''nvme'' \<or> lp = ''nvme''
        then Some (d1\<lparr>detected_type := Nvme\<rparr>)
        else Some d1) = Some d2"
    unfolding detect_from_json_property_def Let_def if_P[OF False]
    by (elim bind2_Some)
  from t have pv: "pvalue (lookup_property r ''device/type'') = VString t"
    by (auto split: property_value.splits)
  show ?thesis
    by (rule disjI2, rule exI[of _ t], rule exI[of _ lp], intro conjI, rule pv, rule lp,
        rule json_branches_cases[OF br])
qed


lemma hdd_or_ssd_range: "hdd_or_ssd r = Some t \<Longrightarrow> t = AtaSsd \<or> t = AtaHdd"
  by (drule hdd_or_ssd_value) (simp split: if_splits)

lemma text_block_type:
  assumes "detect_from_text_property c r d = Some d1"
  shows "detected_type d1 = detected_type d
       \<or> (\<exists>s. detected_type d1 = get_by_storable_name c s BasicScsi)
       \<or> detected_type d1 = AtaSsd \<or> detected_type d1 = AtaHdd"
  using text_block_cases[OF assms] hdd_or_ssd_range[of r "detected_type d1"]
  by (metis (full_types))

lemma json_branches_type:
  assumes "(if A then (if B then Some (d\<lparr>detected_type := CdDvd\<rparr>)
                       else Some (d\<lparr>detected_type := BasicScsi\<rparr>))
            else if C then Option.bind h (\<lambda>t. Some (d\<lparr>detected_type := t\<rparr>))
            else if D then Some (d\<lparr>detected_type := Nvme\<rparr>)
            else Some d) = Some d'"
    and "\<And>x. h = Some x \<Longrightarrow> x = AtaSsd \<or> x = AtaHdd"
  shows "detected_type d' = detected_type d \<or> detected_type d' = CdDvd
       \<or> detected_type d' = BasicScsi \<or> detected_type d' = AtaSsd
       \<or> detected_type d' = AtaHdd \<or> detected_type d' = Nvme"
  using json_branches_cases[OF assms(1)] assms(2)[of "detected_type d'"]
  by blast

lemma json_block_type:
  assumes "detect_from_json_property c r d1 = Some d2"
  shows "detected_type d2 = detected_type d1 \<or> detected_type d2 = CdDvd
       \<or> detected_type d2 = BasicScsi \<or> detected_type d2 = AtaSsd
       \<or> detected_type d2 = AtaHdd \<or> detected_type d2 = Nvme"
proof (cases "empty (lookup_property r ''device/type'')")
  case True
  with assms show ?thesis by (simp add: detect_from_json_property_def)
next
  case False
  show ?thesis
    using assms unfolding detect_from_json_property_def Let_def if_P[OF False]
    by (elim bind2_Some json_branches_type) (rule hdd_or_ssd_range)
qed

lemma detect_drive_type_steps:
  assumes "detect_drive_type_from_properties c r d = Some d'"
  obtains d1 d2 where "detect_from_text_property c r d = Some d1"
    "detect_from_json_property c r d1 = Some d2"
    "detected_type d' = (if detected_type d2 = Unknown then BasicScsi else detected_type d2)"
proof -
  from assms obtain d1 d2 where
    t: "detect_from_text_property c r d = Some d1" and
    j: "detect_from_json_property c r d1 = Some d2" and
    f: "d' = (if detected_type d2 = Unknown then d2\<lparr>detected_type := BasicScsi\<rparr> else d2)"
    by (auto simp: detect_drive_type_from_properties_def split: Option.bind_splits)
  from f have "detected_type d' = (if detected_type d2 = Unknown then BasicScsi else detected_type d2)"
    by (cases "detected_type d2 = Unknown") simp_all
  with t j that show thesis by blast
qed





lemmas resolver_eval =
  detect_drive_type_from_properties_def detect_from_text_property_def
  detect_from_json_property_def lowercase_protocol_def hdd_or_ssd_def lookup_property_def
  empty_def empty_property_def string_property_def int_property_def
  stub_collaborators_def new_StorageDevice_def get_device_base_def starts_with_def
  string_to_lower_copy_def to_lower_chain

lemmas read_eval =
  read_common_properties_def read_smart_supported_def read_smart_enabled_def
  read_model_name_def read_family_name_def read_serial_number_def read_size_def

text \<open>
  What the resolver does guarantee whenever it returns: the detected type is not
  \<open>Unknown\<close>, nothing but the detected type has changed, and the type is not
  \<open>NeedsExplicitType\<close> unless the device entered with it or the stored type name of the
  repository maps to it.
\<close>

lemma text_block_not_needs_explicit_type:
  assumes "detect_from_text_property c r d = Some d1"
    and "detected_type d \<noteq> NeedsExplicitType"
    and "\<forall>s. pvalue (lookup_property r ''_text_only/custom/parser_detected_drive_type'')
               = VString s
             \<longrightarrow> get_by_storable_name c s BasicScsi \<noteq> NeedsExplicitType"
  shows "detected_type d1 \<noteq> NeedsExplicitType"
proof -
  from text_block_cases[OF assms(1)] show ?thesis
  proof
    assume "empty (lookup_property r ''_text_only/custom/parser_detected_drive_type'') \<and> d1 = d"
    with assms(2) show ?thesis by simp
  next
    assume "\<exists>s. pvalue (lookup_property r ''_text_only/custom/parser_detected_drive_type'')
                 = VString s
             \<and> (if get_by_storable_name c s BasicScsi = AtaAny
                 then hdd_or_ssd r = Some (detected_type d1)
                 else detected_type d1 = get_by_storable_name c s BasicScsi)"
    then obtain s where
      pv: "pvalue (lookup_property r ''_text_only/custom/parser_detected_drive_type'') = VString s"
      and br: "if get_by_storable_name c s BasicScsi = AtaAny
                 then hdd_or_ssd r = Some (detected_type d1)
                 else detected_type d1 = get_by_storable_name c s BasicScsi"
      by blast
    from assms(3) pv have ok: "get_by_storable_name c s BasicScsi \<noteq> NeedsExplicitType"
      by blast
    show ?thesis
    proof (cases "get_by_storable_name c s BasicScsi = AtaAny")
      case True
      with br have "hdd_or_ssd r = Some (detected_type d1)" by simp
      from hdd_or_ssd_range[OF this] show ?thesis by auto
    next
      case False
      with br ok show ?thesis by simp
    qed
  qed
qed

lemma resolver_result_type:
  assumes "detect_drive_type_from_properties c repo d = Some d'"
  shows "detected_type d' \<noteq> Unknown
       \<and> d' = d\<lparr>detected_type := detected_type d'\<rparr>
       \<and> (detected_type d \<noteq> NeedsExplicitType
            \<and> (\<forall>s. pvalue (lookup_property repo
                              ''_text_only/custom/parser_detected_drive_type'') = VString s
                     \<longrightarrow> get_by_storable_name c s BasicScsi \<noteq> NeedsExplicitType)
          \<longrightarrow> detected_type d' \<noteq> NeedsExplicitType)"
proof -
  from assms obtain d1 d2 where
    t: "detect_from_text_property c repo d = Some d1" and
    j: "detect_from_json_property c repo d1 = Some d2" and
    f: "detected_type d' = (if detected_type d2 = Unknown then BasicScsi else detected_type d2)"
    by (rule detect_drive_type_steps)
  have a: "detected_type d' \<noteq> Unknown"
    using f by (cases "detected_type d2 = Unknown") simp_all
  have b: "d' = d\<lparr>detected_type := detected_type d'\<rparr>"
    by (rule detect_drive_type_only_type[OF assms])
  have c: "detected_type d' \<noteq> NeedsExplicitType"
    if "detected_type d \<noteq> NeedsExplicitType"
      and "\<forall>s. pvalue (lookup_property repo
                        ''_text_only/custom/parser_detected_drive_type'') = VString s
               \<longrightarrow> get_by_storable_name c s BasicScsi \<noteq> NeedsExplicitType"
  proof -
    have "detected_type d1 \<noteq> NeedsExplicitType"
      by (rule text_block_not_needs_explicit_type[OF t that])
    with json_block_type[OF j] have "detected_type d2 \<noteq> NeedsExplicitType"
      by auto
    with f show ?thesis by (cases "detected_type d2 = Unknown") simp_all
  qed
  from a b c show ?thesis by blast
qed

text \<open>
  Claim C4 says that the detected type is never transient once the resolver has
  returned, so that every device ends a fetch cycle with a terminal type. The code does
  not achieve this: the fallback at the end of the resolver replaces \<open>Unknown\<close> only. A
  device created with the override \<open>sat\<close>, whose executor run fails and asks for a device
  type, is set to \<open>NeedsExplicitType\<close>; the retry is skipped because an override is set;
  the repository of the basic parser has no type property, the resolver returns the
  device with \<open>NeedsExplicitType\<close>, and the basic fetch returns success with that type.
  \<open>fetch_full_data_and_parse\<close> takes this type for one that cannot occur (the branch of
  \<open>DBG_ASSERT(0)\<close>) and has no command options for it.
\<close>

theorem basic_fetch_ends_with_needs_explicit_type:
  "detect_drive_type_from_properties (stub_collaborators needs_type_answer (Inr flash_repository))
     flash_repository
     ((new_StorageDevice ''/dev/sdb'' ''sat'')\<lparr>detected_type := NeedsExplicitType\<rparr>) =
     Some ((new_StorageDevice ''/dev/sdb'' ''sat'')\<lparr>detected_type := NeedsExplicitType\<rparr>)
 \<and> fetch_basic_data_and_parse (stub_collaborators needs_type_answer (Inr flash_repository))
      (new_StorageDevice ''/dev/sdb'' ''sat'') new_world =
     Some (Inr (),
           (new_StorageDevice ''/dev/sdb'' ''sat'')
             \<lparr>detected_type := NeedsExplicitType,
              basic_output := ''Please specify device type with the -d option.'',
              parse_status := ParseStatus_Basic, property_repository := flash_repository,
              model_name := Some ''Flash Disk'', family_name := Some ''Generic'',
              serial_number := Some ''0123456789''\<rparr>,
           \<lparr>calls = [(''/dev/sdb'', [''-d'', ''sat''], basic_command_options)], emitted = 1\<rparr>)
 \<and> full_command_options NeedsExplicitType = []"
  using needs_type_answer_asks
  by (simp add: fetch_basic_data_and_parse.simps stub_collaborators_def needs_type_answer_def
      new_StorageDevice_def new_world_def basic_command_options_def clear_outputs_def
      clear_parse_results_def execute_device_smartctl_def get_device_options_def
      parse_basic_data_def detect_drive_type_from_properties_def detect_from_text_property_def
      detect_from_json_property_def lookup_property_def empty_def empty_property_def
      string_property_def int_property_def flash_repository_def
      read_common_properties_def read_smart_supported_def read_smart_enabled_def
      read_model_name_def read_family_name_def read_serial_number_def read_size_def
      full_command_options_def)




section \<open>Parsing: what a failed parse leaves behind\<close>


lemma clear_parse_results_fields:
  "property_repository (clear_parse_results d) = Map.empty"
  "parse_status (clear_parse_results d) = ParseStatus_None"
  "smart_supported (clear_parse_results d) = None"
  "smart_enabled (clear_parse_results d) = None"
  "model_name (clear_parse_results d) = None"
  "family_name (clear_parse_results d) = None"
  "size_str (clear_parse_results d) = None"
  "health_property (clear_parse_results d) = None"
  "basic_output (clear_parse_results d) = basic_output d"
  "full_output (clear_parse_results d) = full_output d"
  "detected_type (clear_parse_results d) = detected_type d"
  "type_arg (clear_parse_results d) = type_arg d"
  "serial_number (clear_parse_results d) = serial_number d"
  by (simp_all add: clear_parse_results_def)




lemma parse_basic_data_failed:
  assumes "create c Parser_Basic
             (case detect_output_format c (basic_output d) of Inr f \<Rightarrow> f | Inl _ \<Rightarrow> Text)
           = Some p"
    and "p (basic_output d) = Inl message"
  shows "parse_basic_data c d w =
           Some (Inl (ParseError, ''Cannot parse smartctl output: '' @ message),
                 clear_parse_results d, w)"
  using assms unfolding parse_basic_data_def Let_def clear_parse_results_fields
  by simp

lemma parse_full_data_failed:
  assumes "create c pt f = Some p" and "p (full_output d) = Inl message"
  shows "parse_full_data c pt f d w =
           Some (Inl (ParseError, ''Cannot parse smartctl output: '' @ message),
                 clear_parse_results d, w)"
  using assms unfolding parse_full_data_def Let_def clear_parse_results_fields
  by simp


text \<open>
  Claim C6, as amended. When the parser selected by \<open>parse_basic_data\<close> or
  \<open>parse_full_data\<close> fails, the operation returns a \<open>ParseError\<close> that carries the
  parser's message, signals no change, and returns the device as \<open>clear_parse_results\<close>
  leaves it: the parse status is \<open>None\<close>, the parser's repository is not installed, and
  the repository is the empty one, whatever it held before the call. The outputs, the
  detected type and the override are as before the call.
\<close>

theorem failed_parse_returns_parse_error:
  "(create c Parser_Basic
      (case detect_output_format c (basic_output d) of Inr f \<Rightarrow> f | Inl _ \<Rightarrow> Text) = Some p
    \<and> p (basic_output d) = Inl message
    \<longrightarrow> parse_basic_data c d w =
          Some (Inl (ParseError, ''Cannot parse smartctl output: '' @ message),
                clear_parse_results d, w))
 \<and> (create c parser_type format = Some q \<and> q (full_output d) = Inl message'
    \<longrightarrow> parse_full_data c parser_type format d w =
          Some (Inl (ParseError, ''Cannot parse smartctl output: '' @ message'),
                clear_parse_results d, w))
 \<and> parse_status (clear_parse_results d) = ParseStatus_None
 \<and> property_repository (clear_parse_results d) = Map.empty
 \<and> basic_output (clear_parse_results d) = basic_output d
 \<and> full_output (clear_parse_results d) = full_output d
 \<and> detected_type (clear_parse_results d) = detected_type d
 \<and> type_arg (clear_parse_results d) = type_arg d"
  using parse_basic_data_failed[of c d p message w]
    parse_full_data_failed[of c parser_type format q d message' w]
  by (simp add: clear_parse_results_fields)

theorem failed_parse_returns_parse_error_witness:
  "create (stub_collaborators needs_type_answer (Inl ''no version'')) Parser_Basic Text
     = Some (\<lambda>_. Inl ''no version'')
 \<and> parse_basic_data (stub_collaborators needs_type_answer (Inl ''no version''))
      parsed_device new_world =
      Some (Inl (ParseError, ''Cannot parse smartctl output: no version''),
            clear_parse_results parsed_device, new_world)
 \<and> parse_full_data (stub_collaborators needs_type_answer (Inl ''no version''))
      Parser_Ata Text parsed_device new_world =
      Some (Inl (ParseError, ''Cannot parse smartctl output: no version''),
            clear_parse_results parsed_device, new_world)
 \<and> parse_status (clear_parse_results parsed_device) = ParseStatus_None"
  using failed_parse_returns_parse_error
    [of "stub_collaborators needs_type_answer (Inl ''no version'')" parsed_device
        "\<lambda>_. Inl ''no version''" "''no version''" new_world Parser_Ata Text
        "\<lambda>_. Inl ''no version''" "''no version''"]
  by (simp add: stub_collaborators_def)

text \<open>
  Claim C6 as stated says that a failed parse replaces no repository and leaves the
  cached state as it was. A device that holds the results of a full parse and is parsed
  again, with a parser that fails, has lost its repository, its cached model name and
  its parse status \<open>Full\<close>.
\<close>

theorem failed_parse_wipes_fact_store_counterexample:
  "parse_full_data (stub_collaborators needs_type_answer (Inl ''no version''))
      Parser_Ata Text parsed_device new_world =
      Some (Inl (ParseError, ''Cannot parse smartctl output: no version''),
            parsed_device\<lparr>parse_status := ParseStatus_None,
                          property_repository := Map.empty, model_name := None\<rparr>,
            new_world)
 \<and> property_repository parsed_device ''model_name'' = Some (string_property ''ST1000DM003'')
 \<and> model_name parsed_device = Some ''ST1000DM003''
 \<and> parse_status parsed_device = ParseStatus_Full"
  by (simp add: parse_full_data_def stub_collaborators_def parsed_device_def
      new_StorageDevice_def clear_parse_results_def hdd_text_repository_def)

lemma parse_basic_data_no_parser:
  assumes "create c Parser_Basic
             (case detect_output_format c (basic_output d) of Inr f \<Rightarrow> f | Inl _ \<Rightarrow> Text)
           = None"
  shows "parse_basic_data c d w =
           Some (Inl (ParseError, ''Cannot create parser''), clear_parse_results d, w)"
  using assms unfolding parse_basic_data_def Let_def clear_parse_results_fields
  by simp

lemma parse_full_data_no_parser:
  assumes "create c pt f = None"
  shows "parse_full_data c pt f d w =
           Some (Inl (ParseError, ''Cannot create parser''), clear_parse_results d, w)"
  using assms unfolding parse_full_data_def Let_def clear_parse_results_fields
  by simp









section \<open>Parsing: the parse status after a successful parse\<close>

lemma read_model_name_found:
  assumes "read_model_name d = Some d'"
  shows "(model_name d' \<noteq> None) =
           (model_name d \<noteq> None
            \<or> \<not> empty (lookup_property (property_repository d) ''model_name'')
            \<or> \<not> empty (lookup_property (property_repository d) ''scsi_model_name''))"
proof -
  define p where "p = lookup_property (property_repository d) ''model_name''"
  define q where "q = lookup_property (property_repository d) ''scsi_model_name''"
  have "(model_name d' \<noteq> None) = (model_name d \<noteq> None \<or> \<not> empty p \<or> \<not> empty q)"
    using assms unfolding read_model_name_def Let_def p_def[symmetric] q_def[symmetric]
    by (auto split: if_splits Option.bind_splits)
  then show ?thesis unfolding p_def q_def .
qed

lemma read_common_properties_model:
  assumes "read_common_properties d = Some d'" and "model_name d = None"
  shows "(model_name d' \<noteq> None) =
           (\<not> empty (lookup_property (property_repository d') ''model_name'')
            \<or> \<not> empty (lookup_property (property_repository d') ''scsi_model_name''))"
proof -
  from assms(1) obtain d1 d2 d3 d4 d5 where
    s1: "read_smart_supported d = Some d1" and s2: "read_smart_enabled d1 = Some d2" and
    s3: "read_model_name d2 = Some d3" and s4: "read_family_name d3 = Some d4" and
    s5: "read_serial_number d4 = Some d5" and s6: "d' = read_size d5"
    by (rule read_common_properties_steps)
  note e1 = read_smart_supported_frame[OF s1] and e2 = read_smart_enabled_frame[OF s2]
    and e3 = read_model_name_frame[OF s3] and e4 = read_family_name_frame[OF s4]
    and e5 = read_serial_number_frame[OF s5] and e6 = read_size_frame[of d5]
  have m2: "model_name d2 = None"
    using arg_cong[OF e1, of model_name] arg_cong[OF e2, of model_name] assms(2) by simp
  have m': "model_name d' = model_name d3"
    using arg_cong[OF e4, of model_name] arg_cong[OF e5, of model_name]
      arg_cong[OF e6, of model_name] s6 by simp
  have r2: "property_repository d2 = property_repository d"
    using arg_cong[OF e1, of property_repository] arg_cong[OF e2, of property_repository]
    by simp
  have r': "property_repository d' = property_repository d"
    using read_common_properties_frame[OF assms(1)] by simp
  show ?thesis
    using read_model_name_found[OF s3] m2 m' r2 r' by simp
qed

text \<open>
  Claim C7, as amended. After a successful \<open>parse_basic_data\<close> the parse status is
  \<open>Basic\<close> if a model name was read, and \<open>None\<close> otherwise; a model name was read exactly
  when the installed repository has a \<open>model_name\<close> or a \<open>scsi_model_name\<close> property.
  After a successful \<open>parse_full_data\<close> the parse status is \<open>Basic\<close> if the Basic parser
  ran and \<open>Full\<close> if another parser ran.
\<close>

theorem parse_status_after_successful_parse:
  "(parse_basic_data c d w = Some (Inr (), d', w')
    \<longrightarrow> parse_status d' =
          (if model_name d' \<noteq> None then ParseStatus_Basic else ParseStatus_None)
      \<and> (model_name d' \<noteq> None) =
          (\<not> empty (lookup_property (property_repository d') ''model_name'')
           \<or> \<not> empty (lookup_property (property_repository d') ''scsi_model_name'')))
 \<and> (parse_full_data c parser_type format d w = Some (Inr (), d'', w'')
    \<longrightarrow> parse_status d'' =
          (if parser_type = Parser_Basic then ParseStatus_Basic else ParseStatus_Full))"
proof (intro conjI impI)
  assume ok: "parse_basic_data c d w = Some (Inr (), d', w')"
  then obtain repo d2 d4 where
    a: "detect_drive_type_from_properties c repo (clear_parse_results d) = Some d2" and
    b: "read_common_properties
          (d2\<lparr>property_repository := process_properties c repo (detected_type d2)\<rparr>) = Some d4" and
    c: "d' = d4\<lparr>parse_status := (if model_name d4 \<noteq> None then ParseStatus_Basic
                                   else ParseStatus_None)\<rparr>"
    by (auto simp: parse_basic_data_def Let_def split: option.splits sum.splits Option.bind_splits)
  from c have ps: "parse_status d' = (if model_name d4 \<noteq> None then ParseStatus_Basic
                                   else ParseStatus_None)"
    and mn: "model_name d' = model_name d4"
    and pr: "property_repository d' = property_repository d4"
    by simp_all
  from ps mn show "parse_status d' =
          (if model_name d' \<noteq> None then ParseStatus_Basic else ParseStatus_None)"
    by simp
  have "model_name d2 = None"
    using detect_drive_type_frame[OF a] by (simp add: clear_parse_results_fields)
  then have "model_name
      (d2\<lparr>property_repository := process_properties c repo (detected_type d2)\<rparr>) = None"
    by simp
  from read_common_properties_model[OF b this] mn pr
  show "(model_name d' \<noteq> None) =
          (\<not> empty (lookup_property (property_repository d') ''model_name'')
           \<or> \<not> empty (lookup_property (property_repository d') ''scsi_model_name''))"
    by simp
next
  assume ok: "parse_full_data c parser_type format d w = Some (Inr (), d'', w'')"
  then obtain repo d3 where
    a: "detect_drive_type_from_properties c repo
          ((clear_parse_results d)\<lparr>parse_status :=
              (if parser_type = Parser_Basic then ParseStatus_Basic else ParseStatus_Full)\<rparr>)
        = Some d3" and
    b: "read_common_properties
          (d3\<lparr>property_repository := process_properties c repo (detected_type d3)\<rparr>) = Some d''"
    by (auto simp: parse_full_data_def Let_def split: option.splits sum.splits Option.bind_splits)
  from detect_drive_type_frame[OF a] read_common_properties_frame[OF b]
  show "parse_status d'' =
          (if parser_type = Parser_Basic then ParseStatus_Basic else ParseStatus_Full)"
    by simp
qed

theorem parse_status_after_successful_parse_witness:
  "parse_basic_data (stub_collaborators needs_type_answer (Inr hdd_text_repository))
      (new_StorageDevice ''/dev/sda'' []) new_world =
      Some (Inr (),
            (new_StorageDevice ''/dev/sda'' [])
              \<lparr>detected_type := AtaHdd, parse_status := ParseStatus_Basic,
               property_repository := hdd_text_repository,
               model_name := Some ''ST1000DM003''\<rparr>,
            \<lparr>calls = [], emitted = 1\<rparr>)
 \<and> parse_full_data (stub_collaborators needs_type_answer (Inr hdd_text_repository))
      Parser_Ata Text (new_StorageDevice ''/dev/sda'' []) new_world =
      Some (Inr (),
            (new_StorageDevice ''/dev/sda'' [])
              \<lparr>detected_type := AtaHdd, parse_status := ParseStatus_Full,
               property_repository := hdd_text_repository,
               model_name := Some ''ST1000DM003''\<rparr>,
            \<lparr>calls = [], emitted = 1\<rparr>)"
proof -
  let ?c = "stub_collaborators needs_type_answer (Inr hdd_text_repository)"
  let ?d = "new_StorageDevice ''/dev/sda'' []"
  obtain b where b: "parse_basic_data ?c ?d new_world = Some (Inr (), b, \<lparr>calls = [], emitted = 1\<rparr>)"
    and b': "b\<lparr>parse_status := ParseStatus_Basic\<rparr> =
               ?d\<lparr>detected_type := AtaHdd, parse_status := ParseStatus_Basic,
                  property_repository := hdd_text_repository,
                  model_name := Some ''ST1000DM003''\<rparr>"
    and bm: "model_name b = Some ''ST1000DM003''"
    by (simp add: parse_basic_data_def resolver_eval read_eval clear_parse_results_def
        hdd_text_repository_def new_world_def)
  obtain f where f: "parse_full_data ?c Parser_Ata Text ?d new_world =
                       Some (Inr (), f, \<lparr>calls = [], emitted = 1\<rparr>)"
    and f': "f\<lparr>parse_status := ParseStatus_Full\<rparr> =
               ?d\<lparr>detected_type := AtaHdd, parse_status := ParseStatus_Full,
                  property_repository := hdd_text_repository,
                  model_name := Some ''ST1000DM003''\<rparr>"
    by (simp add: parse_full_data_def resolver_eval read_eval clear_parse_results_def
        hdd_text_repository_def new_world_def)
  note t = parse_status_after_successful_parse[of ?c ?d new_world b _ Parser_Ata Text f]
  from t b bm have "parse_status b = ParseStatus_Basic" by simp
  then have "b\<lparr>parse_status := ParseStatus_Basic\<rparr> = b" by simp
  moreover from t f have "parse_status f = ParseStatus_Full" by simp
  then have "f\<lparr>parse_status := ParseStatus_Full\<rparr> = f" by simp
  ultimately show ?thesis using b b' f f' by simp
qed

text \<open>
  Claim C7 as stated gives \<open>Basic\<close> after every successful basic parse. A basic parse
  that succeeds on a repository without a model name (here the JSON properties of an
  ATA solid-state drive) returns success and leaves the parse status \<open>None\<close>.
\<close>

theorem basic_parse_without_model_counterexample:
  "parse_basic_data (stub_collaborators needs_type_answer (Inr ssd_json_repository))
      (new_StorageDevice ''/dev/sda'' []) new_world =
      Some (Inr (),
            (new_StorageDevice ''/dev/sda'' [])
              \<lparr>detected_type := AtaSsd, parse_status := ParseStatus_None,
               property_repository := ssd_json_repository\<rparr>,
            \<lparr>calls = [], emitted = 1\<rparr>)"
  by (simp add: parse_basic_data_def resolver_eval read_eval clear_parse_results_def
      ssd_json_repository_def new_world_def)

section \<open>The common properties\<close>

text \<open>
  The second key of the size chain is looked up but never used: its test reads the
  property of the first key, which is empty on that branch.
\<close>

lemma read_size_fallback_never_read:
  assumes "empty (lookup_property (property_repository d) ''user_capacity/bytes/_short'')"
  shows "read_size d = d"
  using assms by (simp add: read_size_def)

text \<open>
  Claim C9 says that a repository with only the fallback key of a chain sets the cached
  field from that key. On a repository that has only the fallback keys
  \<open>scsi_model_name\<close>, \<open>scsi_vendor\<close> and \<open>user_capacity/bytes\<close> (and a serial number),
  \<open>read_common_properties\<close> sets the model, the family and the serial number, and leaves
  the size unset although \<open>user_capacity/bytes\<close> holds a readable value.
\<close>

theorem size_fallback_key_is_not_read:
  "read_common_properties
     ((new_StorageDevice ''/dev/sdb'' [])\<lparr>property_repository := flash_repository\<rparr>) =
   Some ((new_StorageDevice ''/dev/sdb'' [])
           \<lparr>property_repository := flash_repository,
            model_name := Some ''Flash Disk'', family_name := Some ''Generic'',
            serial_number := Some ''0123456789'', size_str := None\<rparr>)
 \<and> empty (lookup_property flash_repository ''user_capacity/bytes/_short'')
 \<and> readable_value (lookup_property flash_repository ''user_capacity/bytes'') = ''7.45 GiB''"
  by (simp add: resolver_eval read_eval flash_repository_def)

section \<open>Switching SMART on and off\<close>

lemma anchored_patterns:
  "app_regex_partial_match ''/^SMART Enabled/mi'' text =
     list_ex (\<lambda>l. starts_with_nocase l ''SMART Enabled'') (split_lines text)"
  "app_regex_partial_match ''/^SMART Disabled/mi'' text =
     list_ex (\<lambda>l. starts_with_nocase l ''SMART Disabled'') (split_lines text)"
  "app_regex_partial_match ''/^A mandatory SMART command failed/mi'' text =
     list_ex (\<lambda>l. starts_with_nocase l ''A mandatory SMART command failed'') (split_lines text)"
  by (simp_all add: app_regex_partial_match_def)

lemma list_ex_disj:
  "list_ex (\<lambda>l. P l \<or> Q l) xs = (list_ex P xs \<or> list_ex Q xs)"
  by (induction xs) auto

text \<open>
  Claim C8, as amended. When \<open>set_smart_enabled\<close> runs on a device that is not virtual
  and has no test active, and the executor run succeeds with some output, the result is
  read from the lines of that output alone, letter case ignored: success if and only if
  some line starts with \<open>SMART Enabled\<close> or \<open>SMART Disabled\<close>; otherwise \<open>CommandFailed\<close>
  if some line starts with \<open>A mandatory SMART command failed\<close>; otherwise
  \<open>CommandUnknownError\<close>. So a clean execution alone never gives success. The device is
  unchanged and the executor has been run once.
\<close>

theorem smart_toggle_result_from_output_lines:
  assumes "\<not> test_is_active d" and "\<not> is_virtual d"
    and "execute_smartctl c (calls w) (device d) (get_device_options c d)
           (if b then [''--smart=on'', ''--saveauto=on''] else [''--smart=off''])
         = (None, output)"
  shows "set_smart_enabled c b d w =
     ((if list_ex (\<lambda>l. starts_with_nocase l ''SMART Enabled''
                        \<or> starts_with_nocase l ''SMART Disabled'') (split_lines output)
       then Inr ()
       else if list_ex (\<lambda>l. starts_with_nocase l ''A mandatory SMART command failed'')
                 (split_lines output)
       then Inl (CommandFailed, ''Mandatory SMART command failed.'')
       else Inl (CommandUnknownError, ''Unknown error occurred.'')),
      d,
      w\<lparr>calls := calls w @ [(device d, get_device_options c d,
             if b then [''--smart=on'', ''--saveauto=on''] else [''--smart=off''])]\<rparr>)"
proof -
  define cmd where "cmd = (if b then [''--smart=on'', ''--saveauto=on''] else [''--smart=off''])"
  have e: "execute_device_smartctl c cmd [] False d w =
      (Inr (), output, d, w\<lparr>calls := calls w @ [(device d, get_device_options c d, cmd)]\<rparr>)"
    using assms(2,3) unfolding cmd_def[symmetric]
    by (simp add: execute_device_smartctl_def)
  show ?thesis
    unfolding set_smart_enabled_def Let_def cmd_def[symmetric] e anchored_patterns list_ex_disj
    using assms(1) by simp
qed

theorem smart_toggle_result_from_output_lines_witness:
  "set_smart_enabled
     (stub_collaborators
        (None, ''=== START OF ENABLE/DISABLE COMMANDS SECTION ==='' @ [CHR 0x0A]
                 @ ''SMART Enabled.'' @ [CHR 0x0A] @ ''SMART Attribute Autosave Enabled.'')
        (Inl ''no version''))
     True (new_StorageDevice ''/dev/sda'' []) new_world =
     (Inr (), new_StorageDevice ''/dev/sda'' [],
      \<lparr>calls = [(''/dev/sda'', [], [''--smart=on'', ''--saveauto=on''])], emitted = 0\<rparr>)
 \<and> set_smart_enabled
     (stub_collaborators (None, ''A mandatory SMART command failed: exiting.'')
        (Inl ''no version''))
     True (new_StorageDevice ''/dev/sda'' []) new_world =
     (Inl (CommandFailed, ''Mandatory SMART command failed.''), new_StorageDevice ''/dev/sda'' [],
      \<lparr>calls = [(''/dev/sda'', [], [''--smart=on'', ''--saveauto=on''])], emitted = 0\<rparr>)
 \<and> set_smart_enabled
     (stub_collaborators (None, ''Smartctl open device: /dev/sda failed: No such device'')
        (Inl ''no version''))
     False (new_StorageDevice ''/dev/sda'' []) new_world =
     (Inl (CommandUnknownError, ''Unknown error occurred.''), new_StorageDevice ''/dev/sda'' [],
      \<lparr>calls = [(''/dev/sda'', [], [''--smart=off''])], emitted = 0\<rparr>)"
proof -
  let ?d = "new_StorageDevice ''/dev/sda'' []"
  have h: "\<not> test_is_active ?d" "\<not> is_virtual ?d"
    by (simp_all add: new_StorageDevice_def)
  note t = smart_toggle_result_from_output_lines[OF h, of _ new_world]
  show ?thesis
    apply (intro conjI)
      apply (subst t, simp add: stub_collaborators_def)
      apply (simp add: stub_collaborators_def new_StorageDevice_def new_world_def
        get_device_options_def starts_with_nocase_def starts_with_def string_to_lower_copy_def
        to_lower_chain)
     apply (subst t, simp add: stub_collaborators_def)
     apply (simp add: stub_collaborators_def new_StorageDevice_def new_world_def
        get_device_options_def starts_with_nocase_def starts_with_def string_to_lower_copy_def
        to_lower_chain)
    apply (subst t, simp add: stub_collaborators_def)
    apply (simp add: stub_collaborators_def new_StorageDevice_def new_world_def
        get_device_options_def starts_with_nocase_def starts_with_def string_to_lower_copy_def
        to_lower_chain)
    done
qed

text \<open>
  Claim C8 as stated makes success equivalent to a line that starts with
  \<open>SMART Enabled\<close> or \<open>SMART Disabled\<close>. The patterns carry the flag \<open>i\<close>: the output
  \<open>smart enabled.\<close> has no line that starts with either text, and the result is success.
\<close>

theorem lower_case_line_counts_as_success_counterexample:
  "set_smart_enabled (stub_collaborators (None, ''smart enabled.'') (Inl ''no version''))
     True (new_StorageDevice ''/dev/sda'' []) new_world =
     (Inr (), new_StorageDevice ''/dev/sda'' [],
      \<lparr>calls = [(''/dev/sda'', [], [''--smart=on'', ''--saveauto=on''])], emitted = 0\<rparr>)
 \<and> \<not> list_ex (\<lambda>l. starts_with l ''SMART Enabled'' \<or> starts_with l ''SMART Disabled'')
        (split_lines ''smart enabled.'')"
  by (simp add: set_smart_enabled_def execute_device_smartctl_def anchored_patterns
      stub_collaborators_def new_StorageDevice_def new_world_def
      get_device_options_def starts_with_nocase_def starts_with_def string_to_lower_copy_def
      to_lower_chain)

end
